theory Spec2Isabelle
  imports Complex_Main
begin

section \<open>Numeric values\<close>

text \<open>
  The program computes with NumPy floating-point arrays. The embedding idealises a finite
  float as a real number (rounding and overflow are not modelled) and keeps the three
  non-finite values apart, because the code tests for them with \<^verbatim>\<open>np.isfinite\<close>.
  Signed zeros are not distinguished.
\<close>

datatype npfloat = Fin real | PInf | NInf | NaN

type_synonym npvec = "npfloat \<times> npfloat \<times> npfloat"
type_synonym rvec = "real \<times> real \<times> real"
type_synonym rmat = "rvec \<times> rvec \<times> rvec"

datatype error =
  IndexError | KeyError | ValueError | ZeroDivisionError | AttributeError | TypingError

fun isfinite :: "npfloat \<Rightarrow> bool" where
  "isfinite (Fin a) = True"
| "isfinite PInf = False"
| "isfinite NInf = False"
| "isfinite NaN = False"

fun isfinite_vec :: "npvec \<Rightarrow> bool" where
  "isfinite_vec (x, y, z) = (isfinite x \<and> isfinite y \<and> isfinite z)"

text \<open>\<^verbatim>\<open>np.isfinite([a, b, ...]).all()\<close> on a list of 3-vectors.\<close>

definition isfinite_all :: "npvec list \<Rightarrow> bool" where
  "isfinite_all vs = list_all isfinite_vec vs"

fun np_neg :: "npfloat \<Rightarrow> npfloat" where
  "np_neg (Fin a) = Fin (- a)"
| "np_neg PInf = NInf"
| "np_neg NInf = PInf"
| "np_neg NaN = NaN"

fun np_add :: "npfloat \<Rightarrow> npfloat \<Rightarrow> npfloat" where
  "np_add (Fin a) (Fin b) = Fin (a + b)"
| "np_add NaN y = NaN"
| "np_add x NaN = NaN"
| "np_add PInf NInf = NaN"
| "np_add NInf PInf = NaN"
| "np_add PInf y = PInf"
| "np_add x PInf = PInf"
| "np_add NInf y = NInf"
| "np_add x NInf = NInf"

definition np_sub :: "npfloat \<Rightarrow> npfloat \<Rightarrow> npfloat" where
  "np_sub x y = np_add x (np_neg y)"

fun np_div :: "npfloat \<Rightarrow> npfloat \<Rightarrow> npfloat" where
  "np_div (Fin a) (Fin b) =
     (if b \<noteq> 0 then Fin (a / b)
      else if a = 0 then NaN else if 0 < a then PInf else NInf)"
| "np_div NaN y = NaN"
| "np_div x NaN = NaN"
| "np_div (Fin a) y = Fin 0"
| "np_div PInf (Fin b) = (if 0 \<le> b then PInf else NInf)"
| "np_div NInf (Fin b) = (if 0 \<le> b then NInf else PInf)"
| "np_div x y = NaN"

text \<open>\<^verbatim>\<open>x > y\<close>: every comparison with NaN is false.\<close>

fun np_gt :: "npfloat \<Rightarrow> npfloat \<Rightarrow> bool" where
  "np_gt (Fin a) (Fin b) = (b < a)"
| "np_gt NaN y = False"
| "np_gt x NaN = False"
| "np_gt PInf y = (y \<noteq> PInf)"
| "np_gt x NInf = (x \<noteq> NInf)"
| "np_gt x y = False"

fun np_vsub :: "npvec \<Rightarrow> npvec \<Rightarrow> npvec" where
  "np_vsub (a, b, c) (d, e, f) = (np_sub a d, np_sub b e, np_sub c f)"

fun np_vdiv :: "npvec \<Rightarrow> npfloat \<Rightarrow> npvec" where
  "np_vdiv (a, b, c) s = (np_div a s, np_div b s, np_div c s)"

text \<open>
  \<^verbatim>\<open>np.linalg.norm\<close> of a 3-vector, the square root of the sum of squares: NaN if a
  component is NaN, otherwise infinite if a component is infinite.
\<close>

fun np_norm :: "npvec \<Rightarrow> npfloat" where
  "np_norm (Fin a, Fin b, Fin c) = Fin (sqrt (a * a + b * b + c * c))"
| "np_norm (x, y, z) = (if x = NaN \<or> y = NaN \<or> z = NaN then NaN else PInf)"

definition np_zeros3 :: npvec where
  "np_zeros3 = (Fin 0, Fin 0, Fin 0)"

fun fin_vec :: "rvec \<Rightarrow> npvec" where
  "fin_vec (a, b, c) = (Fin a, Fin b, Fin c)"

fun real_of :: "npfloat \<Rightarrow> real" where
  "real_of (Fin a) = a"
| "real_of x = 0"

text \<open>The real components of a vector already known to be finite.\<close>

fun real_vec :: "npvec \<Rightarrow> rvec" where
  "real_vec (x, y, z) = (real_of x, real_of y, real_of z)"

subsection \<open>Real 3-vectors and 3x3 matrices\<close>

fun vsub :: "rvec \<Rightarrow> rvec \<Rightarrow> rvec" where
  "vsub (a, b, c) (d, e, f) = (a - d, b - e, c - f)"

fun vneg :: "rvec \<Rightarrow> rvec" where
  "vneg (a, b, c) = (- a, - b, - c)"

fun vdiv :: "rvec \<Rightarrow> real \<Rightarrow> rvec" where
  "vdiv (a, b, c) s = (a / s, b / s, c / s)"

fun dot :: "rvec \<Rightarrow> rvec \<Rightarrow> real" where
  "dot (a, b, c) (d, e, f) = a * d + b * e + c * f"

fun cross :: "rvec \<Rightarrow> rvec \<Rightarrow> rvec" where
  "cross (a, b, c) (d, e, f) = (b * f - c * e, c * d - a * f, a * e - b * d)"

fun norm3 :: "rvec \<Rightarrow> real" where
  "norm3 (a, b, c) = sqrt (a * a + b * b + c * c)"

section \<open>FrameData\<close>

record FrameData =
  frame_idx :: int
  time :: npfloat
  butt :: npvec
  clubhead :: npvec
  midpoint :: npvec
  left_wrist :: npvec
  left_elbow :: npvec
  left_shoulder :: npvec
  right_wrist :: npvec
  right_elbow :: npvec
  right_shoulder :: npvec
  hub :: npvec
  forces :: "string \<rightharpoonup> npvec"
  torques :: "string \<rightharpoonup> npvec"
  shaft_vector :: npvec
  shaft_length :: npfloat
  face_normal :: npvec

definition calculate_shaft_properties :: "FrameData \<Rightarrow> FrameData" where
  "calculate_shaft_properties self =
     (if isfinite_all [butt self, clubhead self]
      then (let sv = np_vsub (clubhead self) (butt self)
            in self\<lparr>shaft_vector := sv, shaft_length := np_norm sv\<rparr>)
      else self\<lparr>shaft_vector := (Fin 0, Fin 0, Fin 1), shaft_length := Fin 1\<rparr>)"

text \<open>
  \<^verbatim>\<open>_ensure_data_types\<close> casts the ten point arrays to float32. With floats idealised
  as reals the cast changes nothing.
\<close>

definition ensure_data_types :: "FrameData \<Rightarrow> FrameData" where
  "ensure_data_types self = self"

definition post_init :: "FrameData \<Rightarrow> FrameData" where
  "post_init self = ensure_data_types (calculate_shaft_properties self)"

text \<open>
  The dataclass constructor as \<^verbatim>\<open>_process_raw_frame\<close> calls it: index, time and the
  ten points are given, the other fields take their defaults, then
  \<^verbatim>\<open>__post_init__\<close> runs.
\<close>

definition FrameData_new ::
  "int \<Rightarrow> npfloat \<Rightarrow> npvec \<Rightarrow> npvec \<Rightarrow> npvec \<Rightarrow> npvec \<Rightarrow> npvec \<Rightarrow> npvec
     \<Rightarrow> npvec \<Rightarrow> npvec \<Rightarrow> npvec \<Rightarrow> npvec \<Rightarrow> FrameData" where
  "FrameData_new idx t bu ch mp lw le ls rw re rs hb =
     post_init
       \<lparr>frame_idx = idx, time = t, butt = bu, clubhead = ch, midpoint = mp,
        left_wrist = lw, left_elbow = le, left_shoulder = ls,
        right_wrist = rw, right_elbow = re, right_shoulder = rs, hub = hb,
        forces = Map.empty, torques = Map.empty,
        shaft_vector = np_zeros3, shaft_length = Fin 0,
        face_normal = (Fin 1, Fin 0, Fin 0)\<rparr>"

definition is_valid :: "FrameData \<Rightarrow> bool" where
  "is_valid self = list_all isfinite_vec [butt self, clubhead self, midpoint self]"

definition shaft_direction :: "FrameData \<Rightarrow> npvec" where
  "shaft_direction self =
     (if np_gt (shaft_length self) (Fin (1 / 1000000))
      then np_vdiv (shaft_vector self) (shaft_length self)
      else (Fin 0, Fin 0, Fin 1))"

section \<open>Face normal\<close>

text \<open>
  \<^verbatim>\<open>_calculate_face_normal_jit\<close> is only entered through
  \<^verbatim>\<open>_calculate_face_normal\<close>, after all three arguments passed
  \<^verbatim>\<open>np.isfinite\<close>; it is modelled on real vectors. Every division in it is guarded
  by a positive threshold. An early \<^verbatim>\<open>return\<close> of the velocity-based value is
  \<open>Some\<close>; \<open>None\<close> falls through to the fallback code.
\<close>

definition calculate_face_normal_jit :: "rvec \<Rightarrow> rvec \<Rightarrow> rvec \<Rightarrow> rvec" where
  "calculate_face_normal_jit current_clubhead previous_clubhead shaft_dir =
     (let velocity = vsub current_clubhead previous_clubhead;
          velocity_magnitude = norm3 velocity;
          velocity_based =
            (if velocity_magnitude > 1 / 10000
             then (let velocity_direction = vdiv velocity velocity_magnitude;
                       cross_product = cross shaft_dir velocity_direction
                   in if norm3 cross_product > 1 / 1000000
                      then (let face_normal_temp =
                                  cross (cross velocity_direction shaft_dir) shaft_dir;
                                face_normal_magnitude = norm3 face_normal_temp
                            in if face_normal_magnitude > 1 / 1000000
                               then Some (vdiv face_normal_temp face_normal_magnitude)
                               else None)
                      else None)
             else None)
      in case velocity_based of
           Some face_normal_result \<Rightarrow> face_normal_result
         | None \<Rightarrow>
             (if \<bar>snd (snd shaft_dir)\<bar> < 99 / 100
              then (let fallback = (- fst (snd shaft_dir), fst shaft_dir, 0);
                        fallback_magnitude = norm3 fallback
                    in if fallback_magnitude > 1 / 1000000
                       then vdiv fallback fallback_magnitude
                       else (1, 0, 0))
              else (1, 0, 0)))"

definition calculate_face_normal :: "npvec \<Rightarrow> npvec \<Rightarrow> npvec \<Rightarrow> npvec" where
  "calculate_face_normal current_clubhead previous_clubhead shaft_dir =
     (if isfinite_all [current_clubhead, previous_clubhead, shaft_dir]
      then fin_vec (calculate_face_normal_jit (real_vec current_clubhead)
                      (real_vec previous_clubhead) (real_vec shaft_dir))
      else (Fin 1, Fin 0, Fin 0))"

section \<open>Tabular datasets\<close>

text \<open>
  A pandas DataFrame with the default integer index, as the loader builds it. Following
  the resolved schema, \<^verbatim>\<open>Time\<close> is a column of floats; a cell of any other column is
  either a NumPy array of three components or something that is not an array.
  \<open>columns\<close> lists the column names (\<^verbatim>\<open>name in df\<close>), the length of \<open>rows\<close> is
  \<^verbatim>\<open>len(df)\<close>.
\<close>

datatype cell = NdArray npvec | NotArray

record DataRow =
  row_time :: npfloat
  row_cell :: "string \<Rightarrow> cell"

record DataFrame =
  columns :: "string list"
  rows :: "DataRow list"

text \<open>
  \<^verbatim>\<open>get_column_data\<close>. Every caller passes a row index that is not negative (a clamped
  frame index, its predecessor when positive, or a value of \<^verbatim>\<open>range\<close>), so the row
  is a natural number here.
\<close>

definition get_column_data :: "DataFrame \<Rightarrow> string \<Rightarrow> nat \<Rightarrow> npvec" where
  "get_column_data df col_name row_idx =
     (if col_name \<in> set (columns df) \<and> row_idx < length (rows df)
      then (case row_cell (rows df ! row_idx) col_name of
              NdArray val \<Rightarrow> val
            | NotArray \<Rightarrow> np_zeros3)
      else np_zeros3)"

section \<open>External collaborators\<close>

text \<open>
  \<^verbatim>\<open>calculate_inverse_dynamics\<close>, \<^verbatim>\<open>butter_lowpass_filter\<close> and
  \<^verbatim>\<open>savitzky_golay_filter\<close> are imported from the module
  \<^verbatim>\<open>golf_inverse_dynamics\<close>. They are parameters of the model: pure functions of
  their arguments. The dynamics function returns a dictionary with the full-timeline arrays
  \<^verbatim>\<open>'force'\<close> and \<^verbatim>\<open>'torque'\<close>.
\<close>

record dynamics =
  force :: "npvec list"
  torque :: "npvec list"

record external =
  calculate_inverse_dynamics :: "npvec list \<Rightarrow> rmat list \<Rightarrow> npfloat list \<Rightarrow> dynamics"
  butter_lowpass_filter :: "npfloat list \<Rightarrow> real \<Rightarrow> npfloat \<Rightarrow> npfloat list"
  savitzky_golay_filter :: "npfloat list \<Rightarrow> npfloat list"

section \<open>FrameProcessor\<close>

text \<open>
  The fields \<^verbatim>\<open>config\<close> and \<^verbatim>\<open>current_frame\<close> play no part in the operations
  below and are left out.
\<close>

record FrameProcessor =
  baseq_df :: DataFrame
  ztcfq_df :: DataFrame
  deltaq_df :: DataFrame
  num_frames :: int
  time_vector :: "npfloat list"
  raw_data_cache :: "int \<rightharpoonup> FrameData"
  dynamics_cache :: "string \<rightharpoonup> dynamics"
  current_filter :: string

definition FrameProcessor_init :: "DataFrame \<times> DataFrame \<times> DataFrame \<Rightarrow> FrameProcessor" where
  "FrameProcessor_init datasets =
     (case datasets of (b, z, d) \<Rightarrow>
        \<lparr>baseq_df = b, ztcfq_df = z, deltaq_df = d,
         num_frames = int (length (rows b)),
         time_vector =
           (if ''Time'' \<in> set (columns b) then map row_time (rows b)
            else map (\<lambda>i. Fin (real i * (1 / 1000))) [0..<length (rows b)]),
         raw_data_cache = Map.empty,
         dynamics_cache = Map.empty,
         current_filter = ''None''\<rparr>)"

definition invalidate_cache :: "FrameProcessor \<Rightarrow> FrameProcessor" where
  "invalidate_cache self = self\<lparr>dynamics_cache := Map.empty\<rparr>"

definition set_filter :: "FrameProcessor \<Rightarrow> string \<Rightarrow> FrameProcessor" where
  "set_filter self filter_type =
     (if filter_type \<noteq> current_filter self
      then invalidate_cache (self\<lparr>current_filter := filter_type\<rparr>)
      else self)"

definition eye3 :: rmat where
  "eye3 = ((1, 0, 0), (0, 1, 0), (0, 0, 1))"

text \<open>\<^verbatim>\<open>np.diff\<close> and \<^verbatim>\<open>np.mean\<close> of a one-dimensional array.\<close>

definition np_diff :: "npfloat list \<Rightarrow> npfloat list" where
  "np_diff xs = map2 (\<lambda>a b. np_sub b a) xs (tl xs)"

definition np_mean :: "npfloat list \<Rightarrow> npfloat" where
  "np_mean xs = np_div (foldl np_add (Fin 0) xs) (Fin (real (length xs)))"

text \<open>
  \<^verbatim>\<open>position_data[:, i] = ys\<close> on an array with \<open>n\<close> rows: NumPy accepts a
  right-hand side of \<open>n\<close> values or broadcasts a single one, and raises ValueError for
  any other length. The result is the new column.
\<close>

definition assign_column :: "nat \<Rightarrow> npfloat list \<Rightarrow> error + npfloat list" where
  "assign_column n ys =
     (if length ys = n then Inr ys
      else if length ys = 1 then Inr (replicate n (hd ys))
      else Inl ValueError)"

text \<open>
  The body of \<^verbatim>\<open>_calculate_dynamics_for_filter\<close> up to the value it stores. The
  loop over the three axes filters column \<open>i\<close> only, so the columns are filtered one by
  one; a filter name that is neither \<^verbatim>\<open>'Butterworth'\<close> nor
  \<^verbatim>\<open>'Savitzky-Golay'\<close> matches no branch of the loop body and leaves the positions
  as they are. With no rows \<^verbatim>\<open>position_data\<close> is one-dimensional and the column
  access of a known filter raises IndexError.
\<close>

definition filter_axis :: "external \<Rightarrow> FrameProcessor \<Rightarrow> npfloat \<Rightarrow> npfloat list
    \<Rightarrow> error + npfloat list" where
  "filter_axis ext self fs col =
     (if current_filter self = ''Butterworth''
      then (if col = [] then Inl IndexError
            else assign_column (length col) (butter_lowpass_filter ext col 50 fs))
      else if current_filter self = ''Savitzky-Golay''
      then (if col = [] then Inl IndexError
            else assign_column (length col) (savitzky_golay_filter ext col))
      else Inr col)"

definition compute_dynamics :: "external \<Rightarrow> FrameProcessor \<Rightarrow> error + dynamics" where
  "compute_dynamics ext self =
     (let position_data =
            map (\<lambda>i. get_column_data (baseq_df self) ''Clubhead'' i)
              [0..<nat (num_frames self)];
          orientation_data = replicate (nat (num_frames self)) eye3
      in if current_filter self \<noteq> ''None''
         then (let fs = np_div (Fin 1) (np_mean (np_diff (time_vector self)))
               in case filter_axis ext self fs (map fst position_data) of
                    Inl e \<Rightarrow> Inl e
                  | Inr xs \<Rightarrow>
                 (case filter_axis ext self fs (map (\<lambda>p. fst (snd p)) position_data) of
                    Inl e \<Rightarrow> Inl e
                  | Inr ys \<Rightarrow>
                 (case filter_axis ext self fs (map (\<lambda>p. snd (snd p)) position_data) of
                    Inl e \<Rightarrow> Inl e
                  | Inr zs \<Rightarrow>
                      Inr (calculate_inverse_dynamics ext (zip xs (zip ys zs))
                             orientation_data (time_vector self)))))
         else Inr (calculate_inverse_dynamics ext position_data orientation_data
                     (time_vector self)))"

definition calculate_dynamics_for_filter :: "external \<Rightarrow> FrameProcessor
    \<Rightarrow> error + FrameProcessor" where
  "calculate_dynamics_for_filter ext self =
     (case compute_dynamics ext self of
        Inl e \<Rightarrow> Inl e
      | Inr d \<Rightarrow>
          Inr (self\<lparr>dynamics_cache := (dynamics_cache self)(current_filter self \<mapsto> d)\<rparr>))"

definition process_raw_frame :: "FrameProcessor \<Rightarrow> nat \<Rightarrow> error + FrameData" where
  "process_raw_frame self idx =
     (if length (time_vector self) \<le> idx then Inl IndexError
      else
       (let b = baseq_df self;
            frame_data =
              FrameData_new (int idx) (time_vector self ! idx)
                (get_column_data b ''Butt'' idx)
                (get_column_data b ''Clubhead'' idx)
                (get_column_data b ''MidPoint'' idx)
                (get_column_data b ''LeftWrist'' idx)
                (get_column_data b ''LeftElbow'' idx)
                (get_column_data b ''LeftShoulder'' idx)
                (get_column_data b ''RightWrist'' idx)
                (get_column_data b ''RightElbow'' idx)
                (get_column_data b ''RightShoulder'' idx)
                (get_column_data b ''Hub'' idx);
            frame_data = frame_data
              \<lparr>forces :=
                 [''BASEQ'' \<mapsto> get_column_data b ''TotalHandForceGlobal'' idx,
                  ''ZTCFQ'' \<mapsto> get_column_data (ztcfq_df self) ''TotalHandForceGlobal'' idx,
                  ''DELTAQ'' \<mapsto> get_column_data (deltaq_df self) ''TotalHandForceGlobal'' idx],
               torques :=
                 [''BASEQ'' \<mapsto> get_column_data b ''EquivalentMidpointCoupleGlobal'' idx,
                  ''ZTCFQ'' \<mapsto>
                    get_column_data (ztcfq_df self) ''EquivalentMidpointCoupleGlobal'' idx,
                  ''DELTAQ'' \<mapsto>
                    get_column_data (deltaq_df self) ''EquivalentMidpointCoupleGlobal'' idx]\<rparr>
        in Inr (if 0 < idx
                then frame_data
                  \<lparr>face_normal :=
                     calculate_face_normal (clubhead frame_data)
                       (get_column_data b ''Clubhead'' (idx - 1))
                       (shaft_direction frame_data)\<rparr>
                else frame_data)))"

text \<open>
  The class body defines \<^verbatim>\<open>get_frame_data\<close> twice. This is the first, filter-aware
  definition (source lines 398 to 416). The second definition, below, replaces it when
  the class body is executed, so no call reaches the first one; it is kept here under a
  name of its own, as the text of the source has it. It returns the very object stored
  in \<^verbatim>\<open>raw_data_cache[frame_idx]\<close>, after writing the two \<^verbatim>\<open>'calculated'\<close>
  entries into it: the returned record is the content of that object at the time of the
  return, and the cache entry of the returned processor is the same content. A raise ends
  the call; the processor is then not followed further.
\<close>

definition get_frame_data_first :: "external \<Rightarrow> FrameProcessor \<Rightarrow> int
    \<Rightarrow> error + (FrameData \<times> FrameProcessor)" where
  "get_frame_data_first ext self frame_index =
     (let idx = max 0 (min frame_index (num_frames self - 1))
      in case (if raw_data_cache self idx = None
               then (case process_raw_frame self (nat idx) of
                       Inl e \<Rightarrow> Inl e
                     | Inr fd \<Rightarrow>
                         Inr (self\<lparr>raw_data_cache := (raw_data_cache self)(idx \<mapsto> fd)\<rparr>))
               else Inr self) of
           Inl e \<Rightarrow> Inl e
         | Inr s1 \<Rightarrow>
        (case (if dynamics_cache s1 (current_filter s1) = None
               then calculate_dynamics_for_filter ext s1
               else Inr s1) of
           Inl e \<Rightarrow> Inl e
         | Inr s2 \<Rightarrow>
        (case (raw_data_cache s2 idx, dynamics_cache s2 (current_filter s2)) of
           (Some frame_data, Some dyn) \<Rightarrow>
             (if nat idx < length (force dyn) \<and> nat idx < length (torque dyn)
              then (let fd = frame_data
                          \<lparr>forces := (forces frame_data)(''calculated'' \<mapsto> force dyn ! nat idx),
                           torques :=
                             (torques frame_data)(''calculated'' \<mapsto> torque dyn ! nat idx)\<rparr>
                    in Inr (fd, s2\<lparr>raw_data_cache := (raw_data_cache s2)(idx \<mapsto> fd)\<rparr>))
              else Inl IndexError)
         | _ \<Rightarrow> Inl KeyError)))"

text \<open>
  \<^verbatim>\<open>get_frame_data\<close> as the class binds it: the second definition of the name
  (source lines 552 to 564). After the bounds check it tests
  \<^verbatim>\<open>frame_idx in self.processed_data\<close>. No method of the class assigns the attribute
  \<^verbatim>\<open>processed_data\<close> (the constructor sets \<^verbatim>\<open>raw_data_cache\<close> and
  \<^verbatim>\<open>dynamics_cache\<close> only), so reading it raises AttributeError, on every call and
  before anything is returned or changed.
\<close>

definition get_frame_data :: "FrameProcessor \<Rightarrow> int
    \<Rightarrow> error + (FrameData \<times> FrameProcessor)" where
  "get_frame_data self frame_index =
     (let frame_idx = max 0 (min frame_index (num_frames self - 1))
      in Inl AttributeError)"

text \<open>
  \<^verbatim>\<open>get_frame_range\<close>. The loop calls \<^verbatim>\<open>self.get_frame_data(i)\<close>, a name looked up
  on the object when the loop runs: the body is written over the method \<open>getter\<close> that
  the name is bound to, and \<open>get_frame_range\<close> is the body with the class's binding.
  \<open>frame_loop\<close> is the loop over the indices still to visit.
\<close>

type_synonym getter = "FrameProcessor \<Rightarrow> int \<Rightarrow> error + (FrameData \<times> FrameProcessor)"

fun frame_loop :: "getter \<Rightarrow> int list \<Rightarrow> FrameProcessor \<Rightarrow> FrameData list
    \<Rightarrow> error + (FrameData list \<times> FrameProcessor)" where
  "frame_loop getter [] self frames = Inr (frames, self)"
| "frame_loop getter (i # rest) self frames =
     (case getter self i of
        Inl e \<Rightarrow> Inl e
      | Inr (fd, self') \<Rightarrow> frame_loop getter rest self' (frames @ [fd]))"

definition get_frame_range_via :: "getter \<Rightarrow> FrameProcessor \<Rightarrow> int \<Rightarrow> int
    \<Rightarrow> error + (FrameData list \<times> FrameProcessor)" where
  "get_frame_range_via getter self start_frame end_frame =
     (let start_frame = max 0 start_frame;
          end_frame = min (num_frames self - 1) end_frame
      in frame_loop getter [start_frame..end_frame] self [])"


section \<open>GeometryUtils\<close>

subsection \<open>Rotation matrix from two vectors\<close>

fun mat_add :: "rmat \<Rightarrow> rmat \<Rightarrow> rmat" where
  "mat_add ((a, b, c), (d, e, f), (g, h, i)) ((a', b', c'), (d', e', f'), (g', h', i')) =
     ((a + a', b + b', c + c'), (d + d', e + e', f + f'), (g + g', h + h', i + i'))"

fun mat_sub :: "rmat \<Rightarrow> rmat \<Rightarrow> rmat" where
  "mat_sub ((a, b, c), (d, e, f), (g, h, i)) ((a', b', c'), (d', e', f'), (g', h', i')) =
     ((a - a', b - b', c - c'), (d - d', e - e', f - f'), (g - g', h - h', i - i'))"

fun mat_scale :: "rmat \<Rightarrow> real \<Rightarrow> rmat" where
  "mat_scale ((a, b, c), (d, e, f), (g, h, i)) k =
     ((a * k, b * k, c * k), (d * k, e * k, f * k), (g * k, h * k, i * k))"

text \<open>\<^verbatim>\<open>np.dot\<close> of two 3x3 matrices, and of a matrix and a vector.\<close>

fun mat_mul :: "rmat \<Rightarrow> rmat \<Rightarrow> rmat" where
  "mat_mul ((a, b, c), (d, e, f), (g, h, i)) ((a', b', c'), (d', e', f'), (g', h', i')) =
     ((a * a' + b * d' + c * g', a * b' + b * e' + c * h', a * c' + b * f' + c * i'),
      (d * a' + e * d' + f * g', d * b' + e * e' + f * h', d * c' + e * f' + f * i'),
      (g * a' + h * d' + i * g', g * b' + h * e' + i * h', g * c' + h * f' + i * i'))"

fun mat_vec :: "rmat \<Rightarrow> rvec \<Rightarrow> rvec" where
  "mat_vec (r1, r2, r3) v = (dot r1 v, dot r2 v, dot r3 v)"

fun outer :: "rvec \<Rightarrow> rvec \<Rightarrow> rmat" where
  "outer (a, b, c) (d, e, f) =
     ((a * d, a * e, a * f), (b * d, b * e, b * f), (c * d, c * e, c * f))"

text \<open>
  \<^verbatim>\<open>np.allclose(a, b)\<close> with its default tolerances: every component satisfies
  \<open>|a - b| \<le> atol + rtol * |b|\<close>, \<open>atol = 1e-8\<close>, \<open>rtol = 1e-5\<close>.
\<close>

definition isclose :: "real \<Rightarrow> real \<Rightarrow> bool" where
  "isclose a b = (\<bar>a - b\<bar> \<le> 1 / 100000000 + 1 / 100000 * \<bar>b\<bar>)"

fun allclose :: "rvec \<Rightarrow> rvec \<Rightarrow> bool" where
  "allclose (a, b, c) (d, e, f) = (isclose a d \<and> isclose b e \<and> isclose c f)"

text \<open>
  The body of \<^verbatim>\<open>rotation_matrix_from_vectors\<close> on finite vectors, as plain Python
  would run it (the undecorated function). When an argument has norm zero the
  normalisation divides by zero and every entry computed from it is NaN: \<open>NonFinite\<close>.
\<close>

datatype rotation = Rotation rmat | NonFinite

definition rotation_matrix_body :: "rvec \<Rightarrow> rvec \<Rightarrow> rotation" where
  "rotation_matrix_body vec1 vec2 =
     (if norm3 vec1 = 0 \<or> norm3 vec2 = 0 then NonFinite
      else
       (let v1 = vdiv vec1 (norm3 vec1);
            v2 = vdiv vec2 (norm3 vec2)
        in if allclose v1 v2 then Rotation eye3
           else if allclose v1 (vneg v2)
           then (let perpendicular =
                       (if \<bar>fst v1\<bar> < 9 / 10 then (1, 0, 0) else (0, 1, 0));
                     v = cross v1 perpendicular;
                     v = vdiv v (norm3 v)
                 in Rotation (mat_sub (mat_scale (outer v v) 2) eye3))
           else (let v = cross v1 v2;
                     s = norm3 v;
                     c = dot v1 v2;
                     vx = (case v of (v0, v1', v2') \<Rightarrow>
                             ((0, - v2', v1'), (v2', 0, - v0), (- v1', v0, 0)))
                 in Rotation (mat_add (mat_add eye3 vx)
                                (mat_scale (mat_mul vx vx) ((1 - c) / (s * s)))))))"

text \<open>
  \<^verbatim>\<open>rotation_matrix_from_vectors\<close> as the class declares it, under
  \<^verbatim>\<open>@njit\<close>. The function is compiled at its first call, and the compiler must
  give all its \<^verbatim>\<open>return\<close> statements one array type; it does not convert one
  element type to another, and a compilation that cannot unify them fails with a
  TypingError, before the body runs. An array operation has the wider of its operands'
  element types.
\<close>

datatype dtype = Float32 | Float64

fun promote :: "dtype \<Rightarrow> dtype \<Rightarrow> dtype" where
  "promote Float32 Float32 = Float32"
| "promote _ _ = Float64"

fun unify_dtypes :: "dtype \<Rightarrow> dtype list \<Rightarrow> error + dtype" where
  "unify_dtypes t [] = Inr t"
| "unify_dtypes t (u # us) = (if u = t then unify_dtypes t us else Inl TypingError)"

text \<open>
  The element types of the three \<^verbatim>\<open>return\<close> statements, in source order (lines 622,
  636 and 649), for float64 arguments: \<^verbatim>\<open>np.eye(3, dtype=np.float32)\<close>;
  \<^verbatim>\<open>2 * np.outer(v, v) - np.eye(3, dtype=np.float32)\<close>, where \<open>v\<close> is the cross
  product of the float64 \<open>v1\<close> and the float32 \<open>perpendicular\<close>; and \<open>R\<close>, the sum
  of two float32 arrays and of the float32 \<^verbatim>\<open>np.dot(vx, vx)\<close> scaled by
  \<^verbatim>\<open>(1 - c) / (s * s)\<close>, a float64 scalar.
\<close>

definition return_dtypes :: "dtype list" where
  "return_dtypes =
     (let v1 = Float64;
          eye = Float32;
          perpendicular = Float32;
          v = promote v1 perpendicular;
          vx = Float32;
          scalar = Float64
      in [eye,
          promote (promote v v) eye,
          promote (promote eye vx) (promote (promote vx vx) scalar)])"

definition rotation_matrix_from_vectors :: "rvec \<Rightarrow> rvec \<Rightarrow> error + rotation" where
  "rotation_matrix_from_vectors vec1 vec2 =
     (case unify_dtypes (hd return_dtypes) (tl return_dtypes) of
        Inl e \<Rightarrow> Inl e
      | Inr _ \<Rightarrow> Inr (rotation_matrix_body vec1 vec2))"

text \<open>Applying a matrix to a vector, \<^verbatim>\<open>np.dot(R, v)\<close>.\<close>

fun apply_rotation :: "rotation \<Rightarrow> rvec \<Rightarrow> rvec option" where
  "apply_rotation (Rotation R) v = Some (mat_vec R v)"
| "apply_rotation NonFinite v = None"

subsection \<open>Meshes\<close>

text \<open>
  The mesh builders return flat Python lists turned into arrays: three floats per vertex
  and per normal, three indices per triangle. \<^verbatim>\<open>range(n + 1)\<close> is \<open>[0..n]\<close>, which
  is empty for negative \<open>n\<close>. The angle is computed with Python floats, so a segment
  count of zero raises ZeroDivisionError in the first iteration. The indices produced are
  never negative, so the conversion to \<^verbatim>\<open>uint32\<close> leaves them as they are.
\<close>

type_synonym mesh = "real list \<times> real list \<times> int list"

definition cylinder_ring_vertices :: "real \<Rightarrow> real \<Rightarrow> int \<Rightarrow> int \<Rightarrow> real list" where
  "cylinder_ring_vertices radius height segments i =
     (let angle = 2 * pi * real_of_int i / real_of_int segments;
          x = cos angle; z = sin angle
      in [x * radius, 0, z * radius, x * radius, height, z * radius])"

definition cylinder_ring_normals :: "int \<Rightarrow> int \<Rightarrow> real list" where
  "cylinder_ring_normals segments i =
     (let angle = 2 * pi * real_of_int i / real_of_int segments;
          x = cos angle; z = sin angle
      in [x, 0, z, x, 0, z])"

definition cylinder_segment_indices :: "int \<Rightarrow> int \<Rightarrow> int list" where
  "cylinder_segment_indices segments i =
     (let base = i * 2;
          next_base = ((i + 1) mod (segments + 1)) * 2
      in [base, base + 1, next_base, next_base, base + 1, next_base + 1])"

definition create_cylinder_mesh :: "real \<Rightarrow> real \<Rightarrow> int \<Rightarrow> error + mesh" where
  "create_cylinder_mesh radius height segments =
     (if segments = 0 then Inl ZeroDivisionError
      else Inr (concat (map (cylinder_ring_vertices radius height segments) [0..segments]),
                concat (map (cylinder_ring_normals segments) [0..segments]),
                concat (map (cylinder_segment_indices segments) [0..segments - 1])))"

text \<open>
  The sphere's normals divide by the radius in NumPy arithmetic: a zero radius gives
  non-finite normals, not an exception.
\<close>

definition sphere_vertex :: "real \<Rightarrow> int \<Rightarrow> int \<Rightarrow> int \<Rightarrow> int \<Rightarrow> real list" where
  "sphere_vertex radius lat_segments lon_segments i j =
     (let lat = pi * real_of_int i / real_of_int lat_segments - pi / 2;
          lon = 2 * pi * real_of_int j / real_of_int lon_segments;
          x = radius * cos lat * cos lon;
          y = radius * sin lat;
          z = radius * cos lat * sin lon
      in [x, y, z])"

definition sphere_normal :: "real \<Rightarrow> int \<Rightarrow> int \<Rightarrow> int \<Rightarrow> int \<Rightarrow> npfloat list" where
  "sphere_normal radius lat_segments lon_segments i j =
     map (\<lambda>c. np_div (Fin c) (Fin radius))
       (sphere_vertex radius lat_segments lon_segments i j)"

definition sphere_quad_indices :: "int \<Rightarrow> int \<Rightarrow> int \<Rightarrow> int list" where
  "sphere_quad_indices lon_segments i j =
     (let first = i * (lon_segments + 1) + j;
          second = first + lon_segments + 1
      in [first, second, first + 1, second, second + 1, first + 1])"

definition create_sphere_mesh :: "real \<Rightarrow> int \<Rightarrow> int
    \<Rightarrow> error + (real list \<times> npfloat list \<times> int list)" where
  "create_sphere_mesh radius lat_segments lon_segments =
     (if lat_segments = 0 \<or> (0 < lat_segments \<and> lon_segments = 0)
      then Inl ZeroDivisionError
      else Inr (concat (map (\<lambda>i. concat (map (sphere_vertex radius lat_segments lon_segments i)
                                            [0..lon_segments])) [0..lat_segments]),
                concat (map (\<lambda>i. concat (map (sphere_normal radius lat_segments lon_segments i)
                                            [0..lon_segments])) [0..lat_segments]),
                concat (map (\<lambda>i. concat (map (sphere_quad_indices lon_segments i)
                                            [0..lon_segments - 1])) [0..lat_segments - 1])))"

text \<open>Vertex and triangle counts, as the module's self-test prints them.\<close>

definition count3 :: "'a list \<Rightarrow> nat" where
  "count3 xs = length xs div 3"

text \<open>The position of vertex \<open>k\<close> in a flat vertex list.\<close>

definition vertex_at :: "real list \<Rightarrow> nat \<Rightarrow> rvec" where
  "vertex_at vs k = (vs ! (3 * k), vs ! (3 * k + 1), vs ! (3 * k + 2))"

section \<open>Call sequences\<close>

text \<open>
  A client of a FrameProcessor: a sequence of calls, stopped by the first raise. The
  method bound to the name \<^verbatim>\<open>get_frame_data\<close> is a parameter.
\<close>

datatype call = SetFilter string | GetFrame int | GetFrameRange int int

fun do_call :: "getter \<Rightarrow> FrameProcessor \<Rightarrow> call \<Rightarrow> error + FrameProcessor" where
  "do_call getter self (SetFilter name) = Inr (set_filter self name)"
| "do_call getter self (GetFrame i) = map_sum id snd (getter self i)"
| "do_call getter self (GetFrameRange a b) =
     map_sum id snd (get_frame_range_via getter self a b)"

fun run :: "getter \<Rightarrow> FrameProcessor \<Rightarrow> call list \<Rightarrow> error + FrameProcessor" where
  "run getter self [] = Inr self"
| "run getter self (c # cs) =
     (case do_call getter self c of Inl e \<Rightarrow> Inl e | Inr self' \<Rightarrow> run getter self' cs)"

section \<open>Notions used in the statements\<close>

text \<open>
  A frame with its two \<^verbatim>\<open>'calculated'\<close> entries set, and a frame with them
  removed: the fields that \<^verbatim>\<open>_process_raw_frame\<close> fills.
\<close>

definition overlay :: "FrameData \<Rightarrow> npvec \<Rightarrow> npvec \<Rightarrow> FrameData" where
  "overlay fd f t =
     fd\<lparr>forces := (forces fd)(''calculated'' \<mapsto> f),
        torques := (torques fd)(''calculated'' \<mapsto> t)\<rparr>"

definition raw_fields :: "FrameData \<Rightarrow> FrameData" where
  "raw_fields fd =
     fd\<lparr>forces := (forces fd)(''calculated'' := None),
        torques := (torques fd)(''calculated'' := None)\<rparr>"

text \<open>The frame index after the bounds check of \<^verbatim>\<open>get_frame_data\<close>.\<close>

definition clamped :: "FrameProcessor \<Rightarrow> int \<Rightarrow> int" where
  "clamped self i = max 0 (min i (num_frames self - 1))"

text \<open>
  What the first definition of \<^verbatim>\<open>get_frame_data\<close> returns for a frame on a
  processor over the same datasets, with the same filter and with both caches empty.
\<close>

definition fresh_frame :: "external \<Rightarrow> FrameProcessor \<Rightarrow> int \<Rightarrow> error + FrameData" where
  "fresh_frame ext self i =
     map_sum id fst
       (get_frame_data_first ext
          (self\<lparr>raw_data_cache := Map.empty, dynamics_cache := Map.empty\<rparr>) i)"

text \<open>
  The contract of the external functions: a filter returns as many samples as it is
  given, and the dynamics arrays have one row per position.
\<close>

definition ext_ok :: "external \<Rightarrow> bool" where
  "ext_ok ext =
     ((\<forall>xs c fs. length (butter_lowpass_filter ext xs c fs) = length xs)
      \<and> (\<forall>xs. length (savitzky_golay_filter ext xs) = length xs)
      \<and> (\<forall>ps os ts. length (force (calculate_inverse_dynamics ext ps os ts)) = length ps
                    \<and> length (torque (calculate_inverse_dynamics ext ps os ts)) = length ps))"

text \<open>
  The state of a processor between calls: the timeline is not empty and has a time for
  every frame; a cached dynamics entry belongs to the current filter and is what
  \<open>compute_dynamics\<close> gives; a cached frame is the raw frame of its index, up to the
  \<^verbatim>\<open>'calculated'\<close> entries.
\<close>

definition well_formed :: "FrameProcessor \<Rightarrow> bool" where
  "well_formed self =
     (0 < num_frames self \<and> length (time_vector self) = nat (num_frames self))"

definition cache_ok :: "external \<Rightarrow> FrameProcessor \<Rightarrow> bool" where
  "cache_ok ext self =
     ((\<forall>f d. dynamics_cache self f = Some d \<longrightarrow>
          f = current_filter self \<and> compute_dynamics ext self = Inr d)
      \<and> (\<forall>i fd. raw_data_cache self i = Some fd \<longrightarrow>
          process_raw_frame self (nat i) = Inr (raw_fields fd)))"

definition same_data :: "FrameProcessor \<Rightarrow> FrameProcessor \<Rightarrow> bool" where
  "same_data s t =
     (baseq_df s = baseq_df t \<and> ztcfq_df s = ztcfq_df t \<and> deltaq_df s = deltaq_df t
      \<and> num_frames s = num_frames t \<and> time_vector s = time_vector t)"

text \<open>The distance between the clubhead and the butt of a frame, from its own fields.\<close>

definition shaft_norm :: "FrameData \<Rightarrow> npfloat" where
  "shaft_norm fd = np_norm (np_vsub (clubhead fd) (butt fd))"

section \<open>Example data\<close>

text \<open>
  A baseline store of three rows with the columns \<^verbatim>\<open>Butt\<close> and
  \<^verbatim>\<open>Clubhead\<close> (the clubhead of the second row has an infinite component), two
  shorter stores of two rows, and external functions: dynamics that return the positions
  as forces and torques, a low-pass filter that flattens its input to zero, and a
  smoothing filter that returns its input.
\<close>

definition example_row :: "npvec \<Rightarrow> npvec \<Rightarrow> DataRow" where
  "example_row bu ch =
     \<lparr>row_time = Fin 0,
      row_cell = (\<lambda>c. if c = ''Butt'' then NdArray bu
                        else if c = ''Clubhead'' then NdArray ch else NotArray)\<rparr>"

definition example_baseq :: DataFrame where
  "example_baseq =
     \<lparr>columns = [''Butt'', ''Clubhead''],
      rows = [example_row (Fin 0, Fin 0, Fin 0) (Fin 1, Fin 2, Fin 2),
              example_row (Fin 0, Fin 0, Fin 0) (PInf, Fin 0, Fin 0),
              example_row (Fin 0, Fin 0, Fin 0) (Fin 3, Fin 4, Fin 0)]\<rparr>"

definition example_short :: DataFrame where
  "example_short =
     \<lparr>columns = [''TotalHandForceGlobal''],
      rows = [\<lparr>row_time = Fin 0, row_cell = (\<lambda>c. NdArray (Fin 1, Fin 1, Fin 1))\<rparr>,
              \<lparr>row_time = Fin 0, row_cell = (\<lambda>c. NdArray (Fin 2, Fin 2, Fin 2))\<rparr>]\<rparr>"

definition example_ext :: external where
  "example_ext =
     \<lparr>calculate_inverse_dynamics = (\<lambda>ps os ts. \<lparr>force = ps, torque = ps\<rparr>),
      butter_lowpass_filter = (\<lambda>xs c fs. map (\<lambda>x. Fin 0) xs),
      savitzky_golay_filter = (\<lambda>xs. xs)\<rparr>"

definition example_processor :: FrameProcessor where
  "example_processor = FrameProcessor_init (example_baseq, example_short, example_short)"

section \<open>Properties\<close>

subsection \<open>Shaft fields of a frame with non-finite points\<close>

text \<open>
  Claim C10. When \<open>butt\<close> or \<open>clubhead\<close> has a non-finite component at construction,
  the shaft fields are not computed from the points: the constructed FrameData has
  \<open>shaft_vector = (0, 0, 1)\<close> and \<open>shaft_length = 1\<close>, hence \<open>shaft_direction = (0, 0, 1)\<close>.
  The constructor has no failing branch, so the record is always produced.
\<close>

theorem nonfinite_points_give_fixed_shaft:
  assumes "\<not> isfinite_all [bu, ch]"
  shows "shaft_vector (FrameData_new idx t bu ch mp lw le ls rw re rs hb) = (Fin 0, Fin 0, Fin 1)
       \<and> shaft_length (FrameData_new idx t bu ch mp lw le ls rw re rs hb) = Fin 1
       \<and> shaft_direction (FrameData_new idx t bu ch mp lw le ls rw re rs hb)
           = (Fin 0, Fin 0, Fin 1)"
  using assms
  by (simp add: FrameData_new_def post_init_def ensure_data_types_def
        calculate_shaft_properties_def shaft_direction_def)

theorem nonfinite_points_give_fixed_shaft_witness:
  "\<not> isfinite_all [(NaN, Fin 0, Fin 0), (Fin 1, PInf, Fin 0)]
   \<and> shaft_vector (FrameData_new 0 (Fin 0) (NaN, Fin 0, Fin 0) (Fin 1, PInf, Fin 0)
        np_zeros3 np_zeros3 np_zeros3 np_zeros3 np_zeros3 np_zeros3 np_zeros3 np_zeros3)
       = (Fin 0, Fin 0, Fin 1)
   \<and> shaft_length (FrameData_new 0 (Fin 0) (NaN, Fin 0, Fin 0) (Fin 1, PInf, Fin 0)
        np_zeros3 np_zeros3 np_zeros3 np_zeros3 np_zeros3 np_zeros3 np_zeros3 np_zeros3)
       = Fin 1"
proof -
  have h: "\<not> isfinite_all [(NaN, Fin 0, Fin 0), (Fin 1, PInf, Fin 0)]"
    by (simp add: isfinite_all_def)
  from nonfinite_points_give_fixed_shaft [OF h] h show ?thesis by blast
qed

subsection \<open>Face normal without motion\<close>

lemma unit_horizontal_part:
  assumes "norm3 (x, y, z) = 1" and "\<bar>z\<bar> < 99 / 100"
  shows "norm3 (- y, x, 0) > 1 / 1000000"
proof -
  have "x * x + y * y + z * z = 1"
    using assms(1) by (simp add: real_sqrt_eq_1_iff)
  moreover have "z * z < (99 / 100) * (99 / 100)"
    using assms(2) by (metis abs_mult_self_eq abs_ge_zero mult_strict_mono' abs_mult)
  ultimately have "y * y + x * x > (1 / 1000000)\<^sup>2"
    by (simp add: power2_eq_square)
  hence "sqrt (y * y + x * x) > sqrt ((1 / 1000000)\<^sup>2)"
    using real_sqrt_less_iff by blast
  thus ?thesis by simp
qed

text \<open>
  Claim C7. For a unit shaft direction, when the clubhead has not moved (the norm of
  \<open>current - previous\<close> is at most \<open>1e-4\<close>, in particular when the two positions are
  equal), the face normal is the fallback and not the velocity-based value: the
  normalised horizontal perpendicular \<open>(- y, x, 0)\<close> of the shaft direction \<open>(x, y, z)\<close>
  when \<open>|z| < 0.99\<close>, and \<open>(1, 0, 0)\<close> otherwise.
\<close>

theorem face_normal_without_motion_is_fallback:
  assumes "norm3 (vsub cur prev) \<le> 1 / 10000" and "norm3 sd = 1"
  shows "calculate_face_normal_jit cur prev sd =
    (if \<bar>snd (snd sd)\<bar> < 99 / 100
     then vdiv (- fst (snd sd), fst sd, 0) (norm3 (- fst (snd sd), fst sd, 0))
     else (1, 0, 0))"
proof -
  obtain x y z where sd: "sd = (x, y, z)" by (cases sd) auto
  show ?thesis
    using assms unit_horizontal_part [of x y z]
    by (simp add: calculate_face_normal_jit_def Let_def sd del: norm3.simps vdiv.simps)
qed

theorem face_normal_without_motion_is_fallback_witness:
  "norm3 (vsub (1, 2, 3) (1, 2, 3)) \<le> 1 / 10000 \<and> norm3 (1, 0, 0) = 1
   \<and> calculate_face_normal_jit (1, 2, 3) (1, 2, 3) (1, 0, 0) = (0, 1, 0)"
proof -
  have h1: "norm3 (vsub (1, 2, 3) (1, 2, 3)) \<le> 1 / 10000" by simp
  have h2: "norm3 (1, 0, 0) = 1" by simp
  from face_normal_without_motion_is_fallback [OF h1 h2] h1 h2 show ?thesis by simp
qed

subsection \<open>Cylinder and sphere meshes\<close>

lemma length_concat_blocks:
  assumes "\<And>x. x \<in> set xs \<Longrightarrow> length (f x) = k"
  shows "length (concat (map f xs)) = k * length xs"
  using assms by (induction xs) auto

lemma nth_concat_blocks:
  assumes "\<And>x. x \<in> set xs \<Longrightarrow> length (f x) = k" and "i < length xs" and "j < k"
  shows "concat (map f xs) ! (i * k + j) = f (xs ! i) ! j"
  using assms
proof (induction xs arbitrary: i)
  case Nil
  then show ?case by simp
next
  case (Cons x xs)
  show ?case
  proof (cases i)
    case 0
    with Cons.prems show ?thesis by (simp add: nth_append)
  next
    case (Suc m)
    have "concat (map f (x # xs)) ! (i * k + j) = concat (map f xs) ! (m * k + j)"
      using Cons.prems(1)[of x] Suc by (simp add: nth_append)
    also have "\<dots> = f (xs ! m) ! j"
      using Cons.IH[of m] Cons.prems Suc by simp
    finally show ?thesis using Suc by simp
  qed
qed

lemma cylinder_vertex_lookup:
  assumes "0 \<le> n" and "i \<le> nat n" and "j < 6"
  shows "concat (map (cylinder_ring_vertices r h n) [0..n]) ! (i * 6 + j)
         = cylinder_ring_vertices r h n (int i) ! j"
proof -
  have "concat (map (cylinder_ring_vertices r h n) [0..n]) ! (i * 6 + j)
        = cylinder_ring_vertices r h n ([0..n] ! i) ! j"
    using assms by (intro nth_concat_blocks) (simp_all add: cylinder_ring_vertices_def Let_def)
  moreover have "[0..n] ! i = int i" using assms by (simp add: nth_upto)
  ultimately show ?thesis by simp
qed

lemma cylinder_seam:
  fixes r h :: real
  assumes "1 \<le> n"
  defines "vs \<equiv> concat (map (cylinder_ring_vertices r h n) [0..n])"
  shows "vertex_at vs (nat (2 * n)) = vertex_at vs 0"
    and "vertex_at vs (nat (2 * n + 1)) = vertex_at vs 1"
proof -
  have ring_n: "cylinder_ring_vertices r h n n = [r, 0, 0, r, h, 0]"
    using assms(1) by (simp add: cylinder_ring_vertices_def Let_def)
  have ring_0: "cylinder_ring_vertices r h n 0 = [r, 0, 0, r, h, 0]"
    by (simp add: cylinder_ring_vertices_def Let_def)
  have at_n: "vs ! (nat n * 6 + j) = [r, 0, 0, r, h, 0] ! j" if "j < 6" for j
    using cylinder_vertex_lookup[of n "nat n" j r h] that assms(1) ring_n
    by (simp add: vs_def)
  have at_0: "vs ! (0 * 6 + j) = [r, 0, 0, r, h, 0] ! j" if "j < 6" for j
    using cylinder_vertex_lookup[of n 0 j r h] that assms(1) ring_0
    by (simp add: vs_def)
  have e1: "3 * nat (2 * n) = nat n * 6 + 0" "3 * nat (2 * n) + 1 = nat n * 6 + 1"
    "3 * nat (2 * n) + 2 = nat n * 6 + 2"
    "3 * nat (2 * n + 1) = nat n * 6 + 3" "3 * nat (2 * n + 1) + 1 = nat n * 6 + 4"
    "3 * nat (2 * n + 1) + 2 = nat n * 6 + 5"
    using assms(1) by auto
  show "vertex_at vs (nat (2 * n)) = vertex_at vs 0"
    unfolding vertex_at_def e1 using at_n[of 0] at_n[of 1] at_n[of 2] at_0[of 0] at_0[of 1] at_0[of 2]
    by (simp add: add.commute)
  show "vertex_at vs (nat (2 * n + 1)) = vertex_at vs 1"
    unfolding vertex_at_def e1 using at_n[of 3] at_n[of 4] at_n[of 5] at_0[of 3] at_0[of 4] at_0[of 5]
    by (simp add: add.commute)
qed

lemma cylinder_indices_range:
  assumes "1 \<le> n" and "k \<in> set (concat (map (cylinder_segment_indices n) [0..n - 1]))"
  shows "0 \<le> k \<and> k < 2 * (n + 1)"
proof -
  from assms(2) obtain i where i: "0 \<le> i" "i \<le> n - 1" and k: "k \<in> set (cylinder_segment_indices n i)"
    by auto
  have "(i + 1) mod (n + 1) = i + 1" using i by simp
  with k i show ?thesis by (auto simp: cylinder_segment_indices_def Let_def)
qed

lemma cylinder_mesh_properties:
  assumes "1 \<le> n"
  shows "\<exists>vs ns idx. create_cylinder_mesh r h n = Inr (vs, ns, idx)
     \<and> int (count3 vs) = 2 * (n + 1) \<and> int (count3 idx) = 2 * n
     \<and> (\<forall>k\<in>set idx. 0 \<le> k \<and> k < 2 * (n + 1))
     \<and> vertex_at vs (nat (2 * n)) = vertex_at vs 0
     \<and> vertex_at vs (nat (2 * n + 1)) = vertex_at vs 1"
proof -
  have 1: "length (concat (map (cylinder_ring_vertices r h n) [0..n])) = 6 * nat (n + 1)"
    by (subst length_concat_blocks[where k = 6]) (simp_all add: cylinder_ring_vertices_def Let_def)
  have 3: "length (concat (map (cylinder_segment_indices n) [0..n - 1])) = 6 * nat n"
    by (subst length_concat_blocks[where k = 6]) (simp_all add: cylinder_segment_indices_def Let_def)
  have c1: "int (count3 (concat (map (cylinder_ring_vertices r h n) [0..n]))) = 2 * (n + 1)"
    using assms 1 by (simp add: count3_def)
  have c3: "int (count3 (concat (map (cylinder_segment_indices n) [0..n - 1]))) = 2 * n"
    using assms 3 by (simp add: count3_def)
  show ?thesis
    using assms c1 c3 cylinder_seam[OF assms, of r h] cylinder_indices_range[OF assms]
    by (simp add: create_cylinder_mesh_def)
qed

lemma cylinder_modulo_never_wraps:
  assumes "0 \<le> i" and "i < n"
  shows "cylinder_segment_indices n i = [2 * i, 2 * i + 1, 2 * i + 2, 2 * i + 2, 2 * i + 1, 2 * i + 3]"
  using assms by (simp add: cylinder_segment_indices_def Let_def)


lemma sphere_vertex_lookup:
  assumes "0 \<le> lat" and "0 \<le> lon" and "i \<le> nat lat" and "j \<le> nat lon" and "c < 3"
  shows "concat (map (\<lambda>i. concat (map (sphere_vertex r lat lon i) [0..lon])) [0..lat])
           ! (3 * (i * nat (lon + 1) + j) + c)
         = sphere_vertex r lat lon (int i) (int j) ! c"
proof -
  let ?row = "\<lambda>i. concat (map (sphere_vertex r lat lon i) [0..lon])"
  let ?k = "3 * nat (lon + 1)"
  have len_row: "length (?row x) = ?k" for x
    by (subst length_concat_blocks[where k = 3]) (simp_all add: sphere_vertex_def Let_def)
  have off: "j * 3 + c < ?k" using assms by simp
  have idx: "3 * (i * nat (lon + 1) + j) + c = i * ?k + (j * 3 + c)"
    by (simp add: algebra_simps)
  have "concat (map ?row [0..lat]) ! (i * ?k + (j * 3 + c)) = ?row ([0..lat] ! i) ! (j * 3 + c)"
    using assms off by (intro nth_concat_blocks) (simp_all add: len_row)
  also have "[0..lat] ! i = int i" using assms by (simp add: nth_upto)
  also have "?row (int i) ! (j * 3 + c) = sphere_vertex r lat lon (int i) ([0..lon] ! j) ! c"
    using assms by (intro nth_concat_blocks) (simp_all add: sphere_vertex_def Let_def)
  also have "[0..lon] ! j = int j" using assms by (simp add: nth_upto)
  finally show ?thesis unfolding idx .
qed

lemma sphere_seam_vertex:
  assumes "1 \<le> lon"
  shows "sphere_vertex r lat lon i lon = sphere_vertex r lat lon i 0"
  using assms by (simp add: sphere_vertex_def Let_def)

lemma sphere_seam:
  fixes r :: real
  assumes "1 \<le> lat" and "1 \<le> lon" and "0 \<le> i" and "i \<le> lat"
  defines "vs \<equiv> concat (map (\<lambda>i. concat (map (sphere_vertex r lat lon i) [0..lon])) [0..lat])"
  shows "vertex_at vs (nat (i * (lon + 1) + lon)) = vertex_at vs (nat (i * (lon + 1)))"
proof -
  have a: "nat (i * (lon + 1) + lon) = nat i * nat (lon + 1) + nat lon"
    using assms by (simp add: nat_add_distrib nat_mult_distrib)
  have b: "nat (i * (lon + 1)) = nat i * nat (lon + 1) + 0"
    using assms by (simp add: nat_mult_distrib)
  have L: "vs ! (3 * (nat i * nat (lon + 1) + nat lon) + c) = sphere_vertex r lat lon i lon ! c"
    if "c < 3" for c
    using sphere_vertex_lookup[of lat lon "nat i" "nat lon" c r] assms that by (simp add: vs_def)
  have R: "vs ! (3 * (nat i * nat (lon + 1) + 0) + c) = sphere_vertex r lat lon i 0 ! c"
    if "c < 3" for c
    using sphere_vertex_lookup[of lat lon "nat i" 0 c r] assms that by (simp add: vs_def)
  show ?thesis
    unfolding vertex_at_def a b
    using L[of 0] L[of 1] L[of 2] R[of 0] R[of 1] R[of 2] sphere_seam_vertex[OF assms(2), of r lat i]
    by simp
qed

lemma sphere_indices_range:
  assumes "1 \<le> lat" and "1 \<le> lon"
    and "k \<in> set (concat (map (\<lambda>i. concat (map (sphere_quad_indices lon i) [0..lon - 1]))
                     [0..lat - 1]))"
  shows "0 \<le> k \<and> k < (lat + 1) * (lon + 1)"
proof -
  from assms(3) obtain i j where ij: "0 \<le> i" "i \<le> lat - 1" "0 \<le> j" "j \<le> lon - 1"
      and k: "k \<in> set (sphere_quad_indices lon i j)"
    by auto
  define p where "p = i * (lon + 1)"
  define q where "q = lat * (lon + 1)"
  have lo: "0 \<le> p" using ij assms by (simp add: p_def)
  have "(i + 1) * (lon + 1) \<le> lat * (lon + 1)"
    using ij assms by (intro mult_right_mono) simp_all
  hence hi: "p + lon + 1 \<le> q" by (simp add: algebra_simps p_def q_def)
  have top: "(lat + 1) * (lon + 1) = q + lon + 1" by (simp add: algebra_simps q_def)
  have "k \<le> p + j + lon + 2 \<and> p + j \<le> k"
    using k assms(2) by (auto simp: sphere_quad_indices_def Let_def p_def)
  with lo hi ij show ?thesis unfolding top by linarith
qed

lemma sphere_mesh_properties:
  assumes "1 \<le> lat" and "1 \<le> lon"
  shows "\<exists>vs ns idx. create_sphere_mesh r lat lon = Inr (vs, ns, idx)
     \<and> int (count3 vs) = (lat + 1) * (lon + 1) \<and> int (count3 idx) = 2 * lat * lon
     \<and> (\<forall>k\<in>set idx. 0 \<le> k \<and> k < (lat + 1) * (lon + 1))
     \<and> (\<forall>i. 0 \<le> i \<and> i \<le> lat \<longrightarrow>
           vertex_at vs (nat (i * (lon + 1) + lon)) = vertex_at vs (nat (i * (lon + 1))))"
proof -
  let ?vs = "concat (map (\<lambda>i. concat (map (sphere_vertex r lat lon i) [0..lon])) [0..lat])"
  let ?idx = "concat (map (\<lambda>i. concat (map (sphere_quad_indices lon i) [0..lon - 1]))
                     [0..lat - 1])"
  have row: "length (concat (map (sphere_vertex r lat lon x) [0..lon])) = 3 * nat (lon + 1)" for x
    by (subst length_concat_blocks[where k = 3]) (simp_all add: sphere_vertex_def Let_def)
  have "length ?vs = 3 * nat (lon + 1) * nat (lat + 1)"
    by (subst length_concat_blocks[where k = "3 * nat (lon + 1)"]) (simp_all add: row)
  hence c1: "int (count3 ?vs) = (lat + 1) * (lon + 1)"
    using assms by (simp add: count3_def nat_mult_distrib mult.commute)
  have qrow: "length (concat (map (sphere_quad_indices lon x) [0..lon - 1])) = 6 * nat lon" for x
    by (subst length_concat_blocks[where k = 6]) (simp_all add: sphere_quad_indices_def Let_def)
  have "length ?idx = 6 * nat lon * nat lat"
    by (subst length_concat_blocks[where k = "6 * nat lon"]) (simp_all add: qrow)
  hence "count3 ?idx = 2 * (nat lon * nat lat)"
    by (simp add: count3_def)
  hence c3: "int (count3 ?idx) = 2 * lat * lon"
    using assms by (simp add: nat_mult_distrib mult.commute)
  have not_err: "\<not> (lat = 0 \<or> (0 < lat \<and> lon = 0))" using assms by simp
  show ?thesis
    unfolding create_sphere_mesh_def if_not_P[OF not_err]
    using c1 c3 sphere_seam[OF assms, of _ r] sphere_indices_range[OF assms]
    by blast
qed


text \<open>
  With a segment count of zero the cylinder builder raises, and for four segments the last
  side face uses the vertex indices 6 to 9: it refers to the fifth ring (indices 8 and 9),
  never back to ring 0 (indices 0 and 1).
\<close>

theorem cylinder_wrap_counterexample:
  "create_cylinder_mesh 1 1 0 = Inl ZeroDivisionError
   \<and> map_sum id (drop 18 \<circ> snd \<circ> snd) (create_cylinder_mesh 1 1 4) = Inr [6, 7, 8, 8, 7, 9]"
  by (simp add: create_cylinder_mesh_def cylinder_segment_indices_def Let_def upto_rec1)

text \<open>
  Claim C9, amended. For segment counts of at least one: the cylinder has \<open>2 (n + 1)\<close>
  vertices and \<open>2 n\<close> triangles, the sphere \<open>(lat + 1) (lon + 1)\<close> vertices and
  \<open>2 lat lon\<close> triangles, and every index refers to an existing vertex. Both seams
  are closed by duplicated vertices: ring \<open>n\<close> of the cylinder (angle \<open>2 pi\<close>) lies
  on ring 0, and column \<open>lon\<close> of every sphere row lies on column 0. The modulo in
  the cylinder's index computation never wraps: side face \<open>i\<close> joins ring \<open>i\<close> to
  ring \<open>i + 1\<close>, the last one to ring \<open>n\<close>.
\<close>

theorem mesh_counts_and_duplicated_seams:
  assumes "1 \<le> n" and "1 \<le> lat" and "1 \<le> lon"
  shows "(\<exists>vs ns idx. create_cylinder_mesh r h n = Inr (vs, ns, idx)
            \<and> int (count3 vs) = 2 * (n + 1) \<and> int (count3 idx) = 2 * n
            \<and> (\<forall>k\<in>set idx. 0 \<le> k \<and> k < 2 * (n + 1))
            \<and> vertex_at vs (nat (2 * n)) = vertex_at vs 0
            \<and> vertex_at vs (nat (2 * n + 1)) = vertex_at vs 1)
       \<and> (\<forall>i. 0 \<le> i \<and> i < n \<longrightarrow>
             cylinder_segment_indices n i
               = [2 * i, 2 * i + 1, 2 * i + 2, 2 * i + 2, 2 * i + 1, 2 * i + 3])
       \<and> (\<exists>vs ns idx. create_sphere_mesh r lat lon = Inr (vs, ns, idx)
            \<and> int (count3 vs) = (lat + 1) * (lon + 1) \<and> int (count3 idx) = 2 * lat * lon
            \<and> (\<forall>k\<in>set idx. 0 \<le> k \<and> k < (lat + 1) * (lon + 1))
            \<and> (\<forall>i. 0 \<le> i \<and> i \<le> lat \<longrightarrow>
                  vertex_at vs (nat (i * (lon + 1) + lon)) = vertex_at vs (nat (i * (lon + 1)))))"
  using cylinder_mesh_properties [OF assms(1), of r h]
    cylinder_modulo_never_wraps [of _ n]
    sphere_mesh_properties [OF assms(2) assms(3), of r]
  by blast

theorem mesh_counts_and_duplicated_seams_witness:
  "(1::int) \<le> 4 \<and> (1::int) \<le> 2 \<and> (1::int) \<le> 3
   \<and> map_sum id (count3 \<circ> fst) (create_cylinder_mesh 1 1 4) = Inr 10
   \<and> map_sum id (count3 \<circ> snd \<circ> snd) (create_cylinder_mesh 1 1 4) = Inr 8
   \<and> cylinder_segment_indices 4 3 = [6, 7, 8, 8, 7, 9]
   \<and> map_sum id (count3 \<circ> fst) (create_sphere_mesh 1 2 3) = Inr 12
   \<and> map_sum id (count3 \<circ> snd \<circ> snd) (create_sphere_mesh 1 2 3) = Inr 12"
proof -
  have h: "(1::int) \<le> 4" "(1::int) \<le> 2" "(1::int) \<le> 3" by simp_all
  note t = mesh_counts_and_duplicated_seams [OF h, of 1 1]
  from t obtain vs ns idx where c: "create_cylinder_mesh 1 1 4 = Inr (vs, ns, idx)"
    "int (count3 vs) = 2 * (4 + 1)" "int (count3 idx) = 2 * 4"
    by blast
  from t obtain vs' ns' idx' where s: "create_sphere_mesh 1 2 3 = Inr (vs', ns', idx')"
    "int (count3 vs') = (2 + 1) * (3 + 1)" "int (count3 idx') = 2 * 2 * 3"
    by blast
  from t have m: "cylinder_segment_indices 4 3 = [2 * 3, 2 * 3 + 1, 2 * 3 + 2, 2 * 3 + 2, 2 * 3 + 1, 2 * 3 + 3]"
    by simp
  show ?thesis using c s m by simp
qed

subsection \<open>The body of the alignment rotation\<close>

lemma norm3_zero_iff: "norm3 v = 0 \<longleftrightarrow> v = (0, 0, 0)"
proof (cases v)
  case (fields a b c)
  have "a * a + b * b + c * c = 0 \<longleftrightarrow> a = 0 \<and> b = 0 \<and> c = 0"
    by (metis add_nonneg_eq_0_iff mult_eq_0_iff zero_le_square add_nonneg_nonneg)
  thus ?thesis using fields by simp
qed

lemma norm3_sq: "norm3 v * norm3 v = dot v v"
  by (cases v) (simp add: add_nonneg_nonneg)

lemma norm3_vneg: "norm3 (vneg v) = norm3 v"
  by (cases v) simp

lemma dot_vdiv: "dot (vdiv u s) w = dot u w / s" "dot u (vdiv w s) = dot u w / s"
  by (cases u; cases w; simp add: add_divide_distrib)+

lemma unit_vdiv:
  assumes "v \<noteq> (0, 0, 0)"
  shows "dot (vdiv v (norm3 v)) (vdiv v (norm3 v)) = 1"
proof -
  have n: "norm3 v \<noteq> 0" using assms by (simp add: norm3_zero_iff)
  have "dot (vdiv v (norm3 v)) (vdiv v (norm3 v)) = dot v v / (norm3 v * norm3 v)"
    by (simp add: dot_vdiv)
  also have "\<dots> = 1" using n by (simp add: norm3_sq[symmetric])
  finally show ?thesis .
qed

lemma isclose_refl: "isclose a a"
  by (simp add: isclose_def)

lemma allclose_refl: "allclose v v"
  by (cases v) (simp add: isclose_refl)

lemma vneg_vneg: "vneg (vneg v) = v"
  by (cases v) simp

lemma vneg_vdiv: "vneg (vdiv v s) = vdiv (vneg v) s"
  by (cases v) simp

lemma allclose_vneg: "allclose (vneg u) w = allclose u (vneg w)"
proof (cases u; cases w)
  fix a b c d e f assume "u = (a, b, c)" "w = (d, e, f)"
  moreover have "\<bar>- x - y\<bar> = \<bar>x + y\<bar>" for x y :: real by simp
  ultimately show ?thesis by (simp add: isclose_def)
qed

lemma unit_not_close_to_opposite:
  assumes "dot u u = 1"
  shows "\<not> allclose u (vneg u)"
proof (cases u)
  case (fields a b c)
  have big: "\<not> isclose x (- x)" if "\<bar>x\<bar> > 1 / 2" for x :: real
    using that by (simp add: isclose_def abs_if split: if_splits)
  have sum: "a * a + b * b + c * c = 1" using assms fields by simp
  have small: "x * x \<le> 1 / 4" if "\<bar>x\<bar> \<le> 1 / 2" for x :: real
  proof -
    have "\<bar>x\<bar> * \<bar>x\<bar> \<le> (1 / 2) * (1 / 2)"
      using that by (intro mult_mono) simp_all
    thus ?thesis by simp
  qed
  have "\<bar>a\<bar> > 1 / 2 \<or> \<bar>b\<bar> > 1 / 2 \<or> \<bar>c\<bar> > 1 / 2"
  proof (rule ccontr)
    assume "\<not> ?thesis"
    hence "a * a \<le> 1 / 4" "b * b \<le> 1 / 4" "c * c \<le> 1 / 4"
      using small by (simp_all add: not_less)
    with sum show False by linarith
  qed
  thus ?thesis using big fields by auto
qed

lemma dot_cross_left: "dot (cross u w) u = 0"
  by (cases u; cases w) (simp add: algebra_simps)

lemma half_turn_flips:
  assumes "dot w u = 0"
  shows "mat_vec (mat_sub (mat_scale (outer w w) 2) eye3) u = vneg u"
proof (cases u; cases w)
  fix a b c d e f assume uw: "u = (a, b, c)" "w = (d, e, f)"
  with assms have z: "d * a + e * b + f * c = 0" by simp
  have 1: "(d * d * 2 - 1) * a + d * e * 2 * b + d * f * 2 * c = 2 * d * (d * a + e * b + f * c) - a"
    by (simp add: algebra_simps)
  have 2: "e * d * 2 * a + (e * e * 2 - 1) * b + e * f * 2 * c = 2 * e * (d * a + e * b + f * c) - b"
    by (simp add: algebra_simps)
  have 3: "f * d * 2 * a + f * e * 2 * b + (f * f * 2 - 1) * c = 2 * f * (d * a + e * b + f * c) - c"
    by (simp add: algebra_simps)
  show ?thesis unfolding uw by (simp add: eye3_def 1 2 3 z)
qed


lemma rotation_same:
  assumes "v \<noteq> (0, 0, 0)"
  shows "rotation_matrix_body v v = Rotation eye3"
  using assms by (simp add: rotation_matrix_body_def norm3_zero_iff allclose_refl)

lemma cross_vdiv_left: "cross (vdiv u s) w = vdiv (cross u w) s"
  by (cases u; cases w) (simp add: diff_divide_distrib)

lemma half_turn_on_unit:
  fixes u p :: rvec
  defines "w \<equiv> vdiv (cross u p) (norm3 (cross u p))"
  shows "mat_vec (mat_sub (mat_scale (outer w w) 2) eye3) u = vneg u"
proof -
  have "dot w u = 0" by (simp add: w_def dot_vdiv dot_cross_left)
  thus ?thesis by (rule half_turn_flips)
qed

lemma mat_vec_vdiv: "mat_vec M (vdiv u s) = vdiv (mat_vec M u) s"
  by (cases M; cases u) (auto simp: add_divide_distrib)

lemma vdiv_cancel:
  assumes "s \<noteq> 0" and "vdiv u s = vdiv w s"
  shows "u = w"
  using assms by (cases u; cases w) simp

lemma rotation_opposite:
  assumes "v \<noteq> (0, 0, 0)"
  shows "\<exists>R. rotation_matrix_body v (vneg v) = Rotation R \<and> mat_vec R v = vneg v"
proof -
  let ?n = "norm3 v"
  let ?u = "vdiv v ?n"
  have n: "?n \<noteq> 0" using assms by (simp add: norm3_zero_iff)
  have unit: "dot ?u ?u = 1" using assms by (rule unit_vdiv)
  have v2: "vdiv (vneg v) ?n = vneg ?u"
    by (simp add: vneg_vdiv)
  have nc: "\<not> allclose ?u (vneg ?u)" using unit by (rule unit_not_close_to_opposite)
  define p :: rvec where "p = (if \<bar>fst ?u\<bar> < 9 / 10 then (1, 0, 0) else (0, 1, 0))"
  define w where "w = vdiv (cross ?u p) (norm3 (cross ?u p))"
  define R where "R = mat_sub (mat_scale (outer w w) 2) eye3"
  have eq: "rotation_matrix_body v (vneg v) = Rotation R"
    using n nc
    by (simp add: rotation_matrix_body_def v2 norm3_vneg vneg_vneg allclose_refl
          Let_def R_def w_def p_def)
  have "mat_vec R ?u = vneg ?u"
    unfolding R_def w_def by (rule half_turn_on_unit)
  hence "vdiv (mat_vec R v) ?n = vdiv (vneg v) ?n"
    by (simp add: mat_vec_vdiv vneg_vdiv)
  hence "mat_vec R v = vneg v" using n vdiv_cancel by blast
  with eq show ?thesis by blast
qed


lemma double_cross:
  fixes a b c d e f :: real
  defines "p \<equiv> b * f - c * e" and "q \<equiv> c * d - a * f" and "r \<equiv> a * e - b * d"
  shows "cross (p, q, r) (cross (p, q, r) (a, b, c))
         = (- (p * p + q * q + r * r) * a, - (p * p + q * q + r * r) * b,
            - (p * p + q * q + r * r) * c)"
proof -
  have orth: "p * a + q * b + r * c = 0" by (simp add: p_def q_def r_def algebra_simps)
  have 1: "q * (p * b - q * a) - r * (r * a - p * c) = p * (p * a + q * b + r * c) - (p * p + q * q + r * r) * a"
    by (simp add: algebra_simps)
  have 2: "r * (q * c - r * b) - p * (p * b - q * a) = q * (p * a + q * b + r * c) - (p * p + q * q + r * r) * b"
    by (simp add: algebra_simps)
  have 3: "p * (r * a - p * c) - q * (q * c - r * b) = r * (p * a + q * b + r * c) - (p * p + q * q + r * r) * c"
    by (simp add: algebra_simps)
  have neg: "x * 0 - y = - y" for x y :: real by simp
  show ?thesis by (simp only: cross.simps 1 2 3 orth neg minus_mult_left)
qed

lemma cross_cross_unit:
  fixes a b c d e f :: real
  assumes "a * a + b * b + c * c = 1"
  defines "k \<equiv> a * d + b * e + c * f"
  shows "cross (cross (a, b, c) (d, e, f)) (a, b, c) = (d - k * a, e - k * b, f - k * c)"
proof -
  have 1: "(c * d - a * f) * c - (a * e - b * d) * b = d - k * a + d * (a * a + b * b + c * c - 1)"
    by (simp add: k_def algebra_simps)
  have 2: "(a * e - b * d) * a - (b * f - c * e) * c = e - k * b + e * (a * a + b * b + c * c - 1)"
    by (simp add: k_def algebra_simps)
  have 3: "(b * f - c * e) * b - (c * d - a * f) * a = f - k * c + f * (a * a + b * b + c * c - 1)"
    by (simp add: k_def algebra_simps)
  show ?thesis by (simp add: 1 2 3 assms(1))
qed

lemma mat_vec_rodrigues:
  "mat_vec (mat_add (mat_add eye3 ((0, - r, q), (r, 0, - p), (- q, p, 0)))
             (mat_scale (mat_mul ((0, - r, q), (r, 0, - p), (- q, p, 0))
                                 ((0, - r, q), (r, 0, - p), (- q, p, 0))) t)) (a, b, c)
   = (a + fst (cross (p, q, r) (a, b, c))
        + t * fst (cross (p, q, r) (cross (p, q, r) (a, b, c))),
      b + fst (snd (cross (p, q, r) (a, b, c)))
        + t * fst (snd (cross (p, q, r) (cross (p, q, r) (a, b, c)))),
      c + snd (snd (cross (p, q, r) (a, b, c)))
        + t * snd (snd (cross (p, q, r) (cross (p, q, r) (a, b, c)))))"
  by (simp add: eye3_def algebra_simps)

lemma rodrigues_maps_unit:
  assumes u1: "dot u u = 1" and nz: "cross u w \<noteq> (0, 0, 0)"
  shows "mat_vec
           (mat_add (mat_add eye3
               (case cross u w of (v0, v1', v2') \<Rightarrow>
                  ((0, - v2', v1'), (v2', 0, - v0), (- v1', v0, 0))))
             (mat_scale
               (mat_mul
                 (case cross u w of (v0, v1', v2') \<Rightarrow>
                    ((0, - v2', v1'), (v2', 0, - v0), (- v1', v0, 0)))
                 (case cross u w of (v0, v1', v2') \<Rightarrow>
                    ((0, - v2', v1'), (v2', 0, - v0), (- v1', v0, 0))))
               ((1 - dot u w) / (norm3 (cross u w) * norm3 (cross u w))))) u
         = w"
proof -
  obtain a b c where u: "u = (a, b, c)" by (cases u) auto
  obtain d e f where w: "w = (d, e, f)" by (cases w) auto
  define p q r where "p = b * f - c * e" and "q = c * d - a * f" and "r = a * e - b * d"
  define k where "k = a * d + b * e + c * f"
  define S where "S = p * p + q * q + r * r"
  have X: "cross u w = (p, q, r)" by (simp add: u w p_def q_def r_def)
  have unit: "a * a + b * b + c * c = 1" using u1 u by simp
  have S: "norm3 (p, q, r) * norm3 (p, q, r) = S"
    using norm3_sq[of "(p, q, r)"] by (simp add: S_def)
  have Snz: "S \<noteq> 0"
    using nz norm3_zero_iff[of "(p, q, r)"] S X by auto
  have c1: "cross (p, q, r) (a, b, c) = (d - k * a, e - k * b, f - k * c)"
    using cross_cross_unit[OF unit, of d e f] by (simp add: p_def q_def r_def k_def)
  have c2: "cross (p, q, r) (cross (p, q, r) (a, b, c)) = (- S * a, - S * b, - S * c)"
    using double_cross[of b f c e d a] unfolding p_def q_def r_def S_def by simp
  have c2': "cross (p, q, r) (d - k * a, e - k * b, f - k * c) = (- S * a, - S * b, - S * c)"
    using c2 unfolding c1 .
  have t: "(1 - k) / S * (- S * x) = (k - 1) * x" for x
    using Snz by (simp add: field_simps)
  have dk: "dot (a, b, c) (d, e, f) = k" by (simp add: k_def)
  have fin: "x + (y - k * x) + (k - 1) * x = y" for x y :: real
    by (simp add: algebra_simps)
  have "mat_vec (mat_add (mat_add eye3 ((0, - r, q), (r, 0, - p), (- q, p, 0)))
             (mat_scale (mat_mul ((0, - r, q), (r, 0, - p), (- q, p, 0))
                                 ((0, - r, q), (r, 0, - p), (- q, p, 0))) ((1 - k) / S)))
          (a, b, c) = (d, e, f)"
    by (simp only: mat_vec_rodrigues c1 c2' fst_conv snd_conv t fin)
  thus ?thesis
    unfolding X prod.case
    by (simp only: u w X S dk)
qed


lemma cross_vdiv_right: "cross u (vdiv w s) = vdiv (cross u w) s"
  by (cases u; cases w) (simp add: diff_divide_distrib)

lemma vdiv_zero_iff:
  assumes "s \<noteq> 0"
  shows "vdiv u s = (0, 0, 0) \<longleftrightarrow> u = (0, 0, 0)"
  using assms by (cases u) simp

lemma mat_vec_eye3: "mat_vec eye3 u = u"
  by (cases u) (simp add: eye3_def)

lemma rotation_general:
  assumes "v1 \<noteq> (0, 0, 0)" and "v2 \<noteq> (0, 0, 0)" and "cross v1 v2 \<noteq> (0, 0, 0)"
  defines "n1 \<equiv> vdiv v1 (norm3 v1)" and "n2 \<equiv> vdiv v2 (norm3 v2)"
  shows "\<exists>w. apply_rotation (rotation_matrix_body v1 v2) n1 = Some w \<and> allclose w n2
           \<and> (\<not> allclose n1 n2 \<and> \<not> allclose n1 (vneg n2) \<longrightarrow> w = n2)"
proof -
  have nz1: "norm3 v1 \<noteq> 0" and nz2: "norm3 v2 \<noteq> 0"
    using assms(1,2) by (simp_all add: norm3_zero_iff)
  have unit: "dot n1 n1 = 1" unfolding n1_def using assms(1) by (rule unit_vdiv)
  have cr: "cross n1 n2 \<noteq> (0, 0, 0)"
    unfolding n1_def n2_def cross_vdiv_left cross_vdiv_right
    using assms(3) nz1 nz2 by (simp add: vdiv_zero_iff)
  consider (same) "allclose n1 n2"
    | (opp) "\<not> allclose n1 n2" "allclose n1 (vneg n2)"
    | (gen) "\<not> allclose n1 n2" "\<not> allclose n1 (vneg n2)"
    by blast
  then show ?thesis
  proof cases
    case same
    hence "rotation_matrix_body v1 v2 = Rotation eye3"
      using nz1 nz2 by (simp add: rotation_matrix_body_def n1_def n2_def)
    thus ?thesis using same by (simp add: mat_vec_eye3)
  next
    case opp
    define p :: rvec where "p = (if \<bar>fst n1\<bar> < 9 / 10 then (1, 0, 0) else (0, 1, 0))"
    define w where "w = vdiv (cross n1 p) (norm3 (cross n1 p))"
    define R where "R = mat_sub (mat_scale (outer w w) 2) eye3"
    have "rotation_matrix_body v1 v2 = Rotation R"
      using nz1 nz2 opp
      by (simp add: rotation_matrix_body_def Let_def R_def w_def p_def
            n1_def [symmetric] n2_def [symmetric])
    moreover have "mat_vec R n1 = vneg n1"
      unfolding R_def w_def by (rule half_turn_on_unit)
    moreover have "allclose (vneg n1) n2" using opp(2) by (simp add: allclose_vneg)
    ultimately show ?thesis using opp by simp
  next
    case gen
    let ?vx = "case cross n1 n2 of (v0, v1', v2') \<Rightarrow>
                 ((0, - v2', v1'), (v2', 0, - v0), (- v1', v0, 0))"
    let ?R = "mat_add (mat_add eye3 ?vx)
                (mat_scale (mat_mul ?vx ?vx)
                   ((1 - dot n1 n2) / (norm3 (cross n1 n2) * norm3 (cross n1 n2))))"
    have "rotation_matrix_body v1 v2 = Rotation ?R"
      using nz1 nz2 gen
      by (simp add: rotation_matrix_body_def Let_def
            n1_def [symmetric] n2_def [symmetric])
    moreover have "mat_vec ?R n1 = n2" using unit cr by (rule rodrigues_maps_unit)
    ultimately show ?thesis by (simp add: allclose_refl)
  qed
qed

lemma rotation_body_properties:
  assumes "v \<noteq> (0, 0, 0)" and "v1 \<noteq> (0, 0, 0)" and "v2 \<noteq> (0, 0, 0)"
    and "cross v1 v2 \<noteq> (0, 0, 0)"
  shows "rotation_matrix_body v v = Rotation eye3
       \<and> apply_rotation (rotation_matrix_body v (vneg v)) v = Some (vneg v)
       \<and> (\<exists>w. apply_rotation (rotation_matrix_body v1 v2) (vdiv v1 (norm3 v1)) = Some w
               \<and> allclose w (vdiv v2 (norm3 v2))
               \<and> (\<not> allclose (vdiv v1 (norm3 v1)) (vdiv v2 (norm3 v2))
                  \<and> \<not> allclose (vdiv v1 (norm3 v1)) (vneg (vdiv v2 (norm3 v2)))
                  \<longrightarrow> w = vdiv v2 (norm3 v2)))"
proof -
  from rotation_opposite [OF assms(1)]
  have "apply_rotation (rotation_matrix_body v (vneg v)) v = Some (vneg v)" by auto
  with rotation_same [OF assms(1)] rotation_general [OF assms(2,3,4)]
  show ?thesis by blast
qed

subsection \<open>The first definition of get_frame_data between calls\<close>

lemma raw_fields_overlay: "raw_fields (overlay fd f t) = raw_fields fd"
  by (simp add: raw_fields_def overlay_def)

lemma overlay_raw_fields: "overlay (raw_fields fd) f t = overlay fd f t"
  by (simp add: raw_fields_def overlay_def)

lemma raw_fields_unchanged:
  assumes "forces fd ''calculated'' = None" and "torques fd ''calculated'' = None"
  shows "raw_fields fd = fd"
proof -
  have "(forces fd)(''calculated'' := None) = forces fd"
    using assms(1) by (metis fun_upd_triv)
  moreover have "(torques fd)(''calculated'' := None) = torques fd"
    using assms(2) by (metis fun_upd_triv)
  ultimately show ?thesis by (simp add: raw_fields_def)
qed

lemma process_raw_frame_no_calculated:
  assumes "process_raw_frame s idx = Inr fd0"
  shows "raw_fields fd0 = fd0"
proof -
  have "forces fd0 ''calculated'' = None \<and> torques fd0 ''calculated'' = None"
    using assms by (auto simp: process_raw_frame_def Let_def split: if_splits)
  thus ?thesis by (simp add: raw_fields_unchanged)
qed

lemma process_raw_frame_succeeds:
  assumes "idx < length (time_vector s)"
  shows "\<exists>fd0. process_raw_frame s idx = Inr fd0"
  using assms by (simp add: process_raw_frame_def Let_def)

lemma process_raw_frame_same_data:
  assumes "same_data s t"
  shows "process_raw_frame s idx = process_raw_frame t idx"
  using assms by (simp add: process_raw_frame_def same_data_def)

lemma filter_axis_same:
  assumes "current_filter s = current_filter t"
  shows "filter_axis ext s = filter_axis ext t"
  using assms by (intro ext) (simp add: filter_axis_def)

lemma compute_dynamics_same_data:
  assumes "same_data s t" and "current_filter s = current_filter t"
  shows "compute_dynamics ext s = compute_dynamics ext t"
proof -
  have e: "baseq_df s = baseq_df t" "num_frames s = num_frames t"
    "time_vector s = time_vector t"
    using assms(1) by (simp_all add: same_data_def)
  show ?thesis
    unfolding compute_dynamics_def e assms(2) filter_axis_same[OF assms(2), of ext] ..
qed

lemma filter_axis_ok:
  assumes "ext_ok ext" and "col \<noteq> []"
  shows "\<exists>ys. filter_axis ext s fs col = Inr ys \<and> length ys = length col"
  using assms by (simp add: filter_axis_def assign_column_def ext_ok_def)

lemma compute_dynamics_succeeds:
  assumes "ext_ok ext" and "0 < num_frames s"
  shows "\<exists>d. compute_dynamics ext s = Inr d
     \<and> length (force d) = nat (num_frames s) \<and> length (torque d) = nat (num_frames s)"
proof -
  let ?pos = "map (\<lambda>i. get_column_data (baseq_df s) ''Clubhead'' i) [0..<nat (num_frames s)]"
  let ?fs = "np_div (Fin 1) (np_mean (np_diff (time_vector s)))"
  have len: "length ?pos = nat (num_frames s)" by simp
  have ne: "?pos \<noteq> []" using assms(2) by simp
  have dyn: "length (force (calculate_inverse_dynamics ext ps os ts)) = length ps
     \<and> length (torque (calculate_inverse_dynamics ext ps os ts)) = length ps" for ps os ts
    using assms(1) by (simp add: ext_ok_def)
  show ?thesis
  proof (cases "current_filter s = ''None''")
    case True
    thus ?thesis using dyn by (simp add: compute_dynamics_def Let_def)
  next
    case False
    obtain xs where xs: "filter_axis ext s ?fs (map fst ?pos) = Inr xs" "length xs = nat (num_frames s)"
      using filter_axis_ok[OF assms(1), of "map fst ?pos" s ?fs] ne by auto
    obtain ys where ys: "filter_axis ext s ?fs (map (\<lambda>p. fst (snd p)) ?pos) = Inr ys"
        "length ys = nat (num_frames s)"
      using filter_axis_ok[OF assms(1), of "map (\<lambda>p. fst (snd p)) ?pos" s ?fs] ne by auto
    obtain zs where zs: "filter_axis ext s ?fs (map (\<lambda>p. snd (snd p)) ?pos) = Inr zs"
        "length zs = nat (num_frames s)"
      using filter_axis_ok[OF assms(1), of "map (\<lambda>p. snd (snd p)) ?pos" s ?fs] ne by auto
    have "compute_dynamics ext s
          = Inr (calculate_inverse_dynamics ext (zip xs (zip ys zs))
                   (replicate (nat (num_frames s)) eye3) (time_vector s))"
      using False xs(1) ys(1) zs(1) by (simp add: compute_dynamics_def Let_def)
    thus ?thesis using dyn xs(2) ys(2) zs(2) by simp
  qed
qed


lemma clamped_range:
  assumes "0 < num_frames s"
  shows "0 \<le> clamped s i" and "clamped s i < num_frames s"
  using assms by (simp_all add: clamped_def)

lemma get_frame_data_result:
  assumes ok: "ext_ok ext" and wf: "well_formed s" and inv: "cache_ok ext s"
  shows "\<exists>fd0 d. process_raw_frame s (nat (clamped s i)) = Inr fd0
            \<and> compute_dynamics ext s = Inr d
            \<and> nat (clamped s i) < length (force d) \<and> nat (clamped s i) < length (torque d)
            \<and> get_frame_data_first ext s i =
                Inr (overlay fd0 (force d ! nat (clamped s i)) (torque d ! nat (clamped s i)),
                     s\<lparr>raw_data_cache := (raw_data_cache s)
                          (clamped s i \<mapsto>
                             overlay fd0 (force d ! nat (clamped s i))
                               (torque d ! nat (clamped s i))),
                       dynamics_cache := (dynamics_cache s)(current_filter s \<mapsto> d)\<rparr>)"
proof -
  define idx where "idx = clamped s i"
  have N: "0 < num_frames s" and tv: "length (time_vector s) = nat (num_frames s)"
    using wf by (simp_all add: well_formed_def)
  have r: "0 \<le> idx" "idx < num_frames s"
    using clamped_range[OF N, of i] by (simp_all add: idx_def)
  obtain fd0 where fd0: "process_raw_frame s (nat idx) = Inr fd0"
    using process_raw_frame_succeeds[of "nat idx" s] r tv by auto
  obtain d where d: "compute_dynamics ext s = Inr d"
      "length (force d) = nat (num_frames s)" "length (torque d) = nat (num_frames s)"
    using compute_dynamics_succeeds[OF ok N] by auto
  have lt: "nat idx < length (force d)" "nat idx < length (torque d)"
    using r d by simp_all
  define F where "F = force d ! nat idx"
  define T where "T = torque d ! nat idx"
  define s1 where "s1 = (if raw_data_cache s idx = None
                         then s\<lparr>raw_data_cache := (raw_data_cache s)(idx \<mapsto> fd0)\<rparr> else s)"
  have step1: "(if raw_data_cache s idx = None
                then (case process_raw_frame s (nat idx) of
                        Inl e \<Rightarrow> Inl e
                      | Inr fd \<Rightarrow> Inr (s\<lparr>raw_data_cache := (raw_data_cache s)(idx \<mapsto> fd)\<rparr>))
                else Inr s) = Inr s1"
    by (simp add: s1_def fd0)
  obtain fd where fd: "raw_data_cache s1 idx = Some fd" "overlay fd F T = overlay fd0 F T"
  proof (cases "raw_data_cache s idx")
    case None
    hence "raw_data_cache s1 idx = Some fd0" by (simp add: s1_def)
    thus ?thesis using that by blast
  next
    case (Some fd)
    hence "raw_fields fd = fd0" using inv fd0 by (simp add: cache_ok_def)
    hence "overlay fd F T = overlay fd0 F T" using overlay_raw_fields[of fd F T] by simp
    moreover have "raw_data_cache s1 idx = Some fd" using Some by (simp add: s1_def)
    ultimately show ?thesis using that by blast
  qed
  have s1_data: "same_data s1 s" "current_filter s1 = current_filter s"
    "dynamics_cache s1 = dynamics_cache s"
    by (simp_all add: s1_def same_data_def)
  have cd1: "compute_dynamics ext s1 = Inr d"
    using compute_dynamics_same_data[OF s1_data(1,2), of ext] d(1) by simp
  define s2 where "s2 = s1\<lparr>dynamics_cache := (dynamics_cache s)(current_filter s \<mapsto> d)\<rparr>"
  have step2: "(if dynamics_cache s1 (current_filter s1) = None
                then calculate_dynamics_for_filter ext s1 else Inr s1) = Inr s2"
  proof (cases "dynamics_cache s (current_filter s)")
    case None
    thus ?thesis by (simp add: s1_data calculate_dynamics_for_filter_def cd1 s2_def)
  next
    case (Some d')
    hence "d' = d" using inv d(1) by (auto simp: cache_ok_def)
    hence "(dynamics_cache s)(current_filter s \<mapsto> d) = dynamics_cache s"
      using Some by (simp add: map_upd_triv)
    hence "s2 = s1" by (simp add: s2_def s1_data(3) [symmetric])
    thus ?thesis using Some by (simp add: s1_data)
  qed
  have look: "raw_data_cache s2 idx = Some fd"
    "dynamics_cache s2 (current_filter s2) = Some d"
    using fd(1) by (simp_all add: s2_def s1_data)
  have final: "s2\<lparr>raw_data_cache := (raw_data_cache s2)(idx \<mapsto> overlay fd0 F T)\<rparr>
        = s\<lparr>raw_data_cache := (raw_data_cache s)(idx \<mapsto> overlay fd0 F T),
             dynamics_cache := (dynamics_cache s)(current_filter s \<mapsto> d)\<rparr>"
    by (simp add: s2_def s1_def)
  have "get_frame_data_first ext s i = Inr (overlay fd0 F T,
          s\<lparr>raw_data_cache := (raw_data_cache s)(idx \<mapsto> overlay fd0 F T),
            dynamics_cache := (dynamics_cache s)(current_filter s \<mapsto> d)\<rparr>)"
    unfolding get_frame_data_first_def Let_def clamped_def [symmetric] idx_def [symmetric]
      step1 sum.case step2 look prod.case option.case
    using lt fd(2) final
    by (simp add: F_def T_def overlay_def)
  thus ?thesis using fd0 d(1) lt unfolding idx_def F_def T_def by blast
qed


lemma same_data_refl: "same_data s s"
  by (simp add: same_data_def)

lemma same_data_trans: "same_data s t \<Longrightarrow> same_data t u \<Longrightarrow> same_data s u"
  by (simp add: same_data_def)

lemma same_data_sym: "same_data s t \<Longrightarrow> same_data t s"
  by (simp add: same_data_def)

lemma clamped_same_data: "same_data s t \<Longrightarrow> clamped s i = clamped t i"
  by (simp add: clamped_def same_data_def)

lemma well_formed_same_data: "same_data s t \<Longrightarrow> well_formed s \<Longrightarrow> well_formed t"
  by (simp add: well_formed_def same_data_def)

lemma cleared_cache_ok:
  "cache_ok ext (s\<lparr>raw_data_cache := Map.empty, dynamics_cache := Map.empty\<rparr>)"
  by (simp add: cache_ok_def)

lemma cleared_same_data:
  "same_data (s\<lparr>raw_data_cache := Map.empty, dynamics_cache := Map.empty\<rparr>) s"
  by (simp add: same_data_def)

lemma get_frame_data_preserves:
  assumes ok: "ext_ok ext" and wf: "well_formed s" and inv: "cache_ok ext s"
  shows "\<exists>fd s' d. get_frame_data_first ext s i = Inr (fd, s')
            \<and> well_formed s' \<and> cache_ok ext s' \<and> same_data s s'
            \<and> current_filter s' = current_filter s
            \<and> raw_data_cache s' (clamped s i) = Some fd
            \<and> dynamics_cache s' = (dynamics_cache s)(current_filter s \<mapsto> d)
            \<and> compute_dynamics ext s = Inr d
            \<and> forces fd ''calculated'' = Some (force d ! nat (clamped s i))
            \<and> torques fd ''calculated'' = Some (torque d ! nat (clamped s i))
            \<and> process_raw_frame s (nat (clamped s i)) = Inr (raw_fields fd)
            \<and> Inr fd = fresh_frame ext s i"
proof -
  let ?idx = "clamped s i"
  from get_frame_data_result[OF ok wf inv, of i]
  obtain fd0 d where
    fd0: "process_raw_frame s (nat ?idx) = Inr fd0" and
    d: "compute_dynamics ext s = Inr d" and
    g: "get_frame_data_first ext s i =
          Inr (overlay fd0 (force d ! nat ?idx) (torque d ! nat ?idx),
               s\<lparr>raw_data_cache := (raw_data_cache s)
                    (?idx \<mapsto> overlay fd0 (force d ! nat ?idx) (torque d ! nat ?idx)),
                 dynamics_cache := (dynamics_cache s)(current_filter s \<mapsto> d)\<rparr>)"
    by blast
  define fd where "fd = overlay fd0 (force d ! nat ?idx) (torque d ! nat ?idx)"
  define s' where "s' = s\<lparr>raw_data_cache := (raw_data_cache s)(?idx \<mapsto> fd),
                         dynamics_cache := (dynamics_cache s)(current_filter s \<mapsto> d)\<rparr>"
  have g': "get_frame_data_first ext s i = Inr (fd, s')" using g by (simp add: fd_def s'_def)
  have sd: "same_data s s'" and cf: "current_filter s' = current_filter s"
    by (simp_all add: s'_def same_data_def)
  have wf': "well_formed s'" using well_formed_same_data[OF sd wf] .
  have rf: "raw_fields fd = fd0"
    using process_raw_frame_no_calculated[OF fd0] by (simp add: fd_def raw_fields_overlay)
  have pr: "process_raw_frame s' = process_raw_frame s"
    using process_raw_frame_same_data[OF same_data_sym[OF sd]] by (intro ext)
  have cd: "compute_dynamics ext s' = compute_dynamics ext s"
    using compute_dynamics_same_data[OF same_data_sym[OF sd] cf] .
  have inv': "cache_ok ext s'"
  proof -
    have a: "f = current_filter s \<and> compute_dynamics ext s = Inr d'"
      if "dynamics_cache s' f = Some d'" for f d'
      using that inv d by (auto simp: s'_def cache_ok_def split: if_splits)
    have b: "process_raw_frame s (nat j) = Inr (raw_fields fd')"
      if "raw_data_cache s' j = Some fd'" for j fd'
      using that inv fd0 rf by (auto simp: s'_def cache_ok_def split: if_splits)
    show ?thesis unfolding cache_ok_def pr cd cf using a b by blast
  qed
  have fresh: "Inr fd = fresh_frame ext s i"
  proof -
    let ?c = "s\<lparr>raw_data_cache := Map.empty, dynamics_cache := Map.empty\<rparr>"
    have c: "same_data ?c s" "current_filter ?c = current_filter s"
      by (simp_all add: same_data_def)
    have wfc: "well_formed ?c" using wf by (simp add: well_formed_def)
    from get_frame_data_result[OF ok wfc cleared_cache_ok, of i]
    obtain fd1 d1 where
      "process_raw_frame ?c (nat (clamped ?c i)) = Inr fd1"
      "compute_dynamics ext ?c = Inr d1"
      "map_sum id fst (get_frame_data_first ext ?c i)
         = Inr (overlay fd1 (force d1 ! nat (clamped ?c i)) (torque d1 ! nat (clamped ?c i)))"
      by force
    moreover have "clamped ?c i = ?idx" by (simp add: clamped_def)
    moreover have "process_raw_frame ?c = process_raw_frame s"
      using process_raw_frame_same_data[OF c(1)] by (intro ext)
    moreover have "compute_dynamics ext ?c = compute_dynamics ext s"
      using compute_dynamics_same_data[OF c] .
    ultimately show ?thesis using fd0 d by (simp add: fresh_frame_def fd_def)
  qed
  have "raw_data_cache s' ?idx = Some fd" by (simp add: s'_def)
  moreover have "dynamics_cache s' = (dynamics_cache s)(current_filter s \<mapsto> d)"
    by (simp add: s'_def)
  moreover have "forces fd ''calculated'' = Some (force d ! nat ?idx)"
    "torques fd ''calculated'' = Some (torque d ! nat ?idx)"
    by (simp_all add: fd_def overlay_def)
  ultimately show ?thesis using g' wf' inv' sd cf d fd0 rf fresh by blast
qed

lemma set_filter_preserves:
  assumes "well_formed s" and "cache_ok ext s"
  shows "well_formed (set_filter s name)" and "cache_ok ext (set_filter s name)"
    and "same_data s (set_filter s name)" and "current_filter (set_filter s name) = name"
proof -
  show "well_formed (set_filter s name)"
    using assms(1) by (simp add: set_filter_def invalidate_cache_def well_formed_def)
  show "same_data s (set_filter s name)"
    by (simp add: set_filter_def invalidate_cache_def same_data_def)
  show "current_filter (set_filter s name) = name"
    by (simp add: set_filter_def invalidate_cache_def)
  show "cache_ok ext (set_filter s name)"
  proof (cases "name = current_filter s")
    case True
    thus ?thesis using assms(2) by (simp add: set_filter_def)
  next
    case False
    let ?t = "s\<lparr>current_filter := name, dynamics_cache := Map.empty\<rparr>"
    have "process_raw_frame ?t = process_raw_frame s"
      by (intro ext process_raw_frame_same_data) (simp add: same_data_def)
    thus ?thesis
      using False assms(2) by (simp add: set_filter_def invalidate_cache_def cache_ok_def)
  qed
qed

lemma init_good:
  assumes "rows b \<noteq> []"
  shows "well_formed (FrameProcessor_init (b, z, d))"
    and "cache_ok ext (FrameProcessor_init (b, z, d))"
  using assms by (simp_all add: FrameProcessor_init_def well_formed_def cache_ok_def)


lemma fresh_frame_same_data:
  assumes "same_data s t" and "current_filter s = current_filter t"
  shows "fresh_frame ext s i = fresh_frame ext t i"
proof -
  have "s\<lparr>raw_data_cache := Map.empty, dynamics_cache := Map.empty\<rparr>
        = t\<lparr>raw_data_cache := Map.empty, dynamics_cache := Map.empty\<rparr>"
    using assms by (cases s; cases t) (simp add: same_data_def)
  thus ?thesis by (simp add: fresh_frame_def)
qed

lemma frame_loop_result:
  assumes ok: "ext_ok ext" and "well_formed s" and "cache_ok ext s"
  shows "\<exists>fds s'. frame_loop (get_frame_data_first ext) js s acc = Inr (acc @ fds, s')
            \<and> well_formed s' \<and> cache_ok ext s' \<and> same_data s s'
            \<and> current_filter s' = current_filter s
            \<and> map Inr fds = map (fresh_frame ext s) js"
  using assms(2,3)
proof (induction js arbitrary: s acc)
  case Nil
  then show ?case by (simp add: same_data_refl)
next
  case (Cons j js)
  from get_frame_data_preserves[OF ok Cons.prems, of j]
  obtain fd s1 where g: "get_frame_data_first ext s j = Inr (fd, s1)"
      and s1: "well_formed s1" "cache_ok ext s1" "same_data s s1"
        "current_filter s1 = current_filter s"
      and fr: "Inr fd = fresh_frame ext s j"
    by blast
  from Cons.IH[OF s1(1,2), of "acc @ [fd]"]
  obtain fds s' where l: "frame_loop (get_frame_data_first ext) js s1 (acc @ [fd]) = Inr ((acc @ [fd]) @ fds, s')"
      and s': "well_formed s'" "cache_ok ext s'" "same_data s1 s'"
        "current_filter s' = current_filter s1"
      and m: "map Inr fds = map (fresh_frame ext s1) js"
    by blast
  have "fresh_frame ext s1 = fresh_frame ext s"
    using fresh_frame_same_data[OF same_data_sym[OF s1(3)] s1(4), of ext] by (intro ext)
  hence "map Inr (fd # fds) = map (fresh_frame ext s) (j # js)"
    using m fr by simp
  moreover have "frame_loop (get_frame_data_first ext) (j # js) s acc = Inr (acc @ fd # fds, s')"
    using g l by simp
  ultimately show ?case
    using s' s1 same_data_trans[OF s1(3) s'(3)] by (metis (no_types))
qed

lemma get_frame_range_result:
  assumes ok: "ext_ok ext" and "well_formed s" and "cache_ok ext s"
  shows "\<exists>fds s'. get_frame_range_via (get_frame_data_first ext) s a b = Inr (fds, s')
            \<and> well_formed s' \<and> cache_ok ext s' \<and> same_data s s'
            \<and> current_filter s' = current_filter s
            \<and> map Inr fds = map (fresh_frame ext s) [max 0 a..min (num_frames s - 1) b]"
  using frame_loop_result[OF assms, of "[max 0 a..min (num_frames s - 1) b]" "[]"]
  by (simp add: get_frame_range_via_def Let_def)

lemma do_call_preserves:
  assumes ok: "ext_ok ext" and "well_formed s" and "cache_ok ext s"
  shows "\<exists>s'. do_call (get_frame_data_first ext) s c = Inr s' \<and> well_formed s' \<and> cache_ok ext s' \<and> same_data s s'
           \<and> current_filter s' = (case c of SetFilter name \<Rightarrow> name | _ \<Rightarrow> current_filter s)"
proof (cases c)
  case (SetFilter name)
  thus ?thesis using set_filter_preserves[OF assms(2,3), of name] by simp
next
  case (GetFrame i)
  from get_frame_data_preserves[OF assms, of i] obtain fd s' where
    "get_frame_data_first ext s i = Inr (fd, s')" "well_formed s'" "cache_ok ext s'" "same_data s s'"
    "current_filter s' = current_filter s" by blast
  thus ?thesis using GetFrame by simp
next
  case (GetFrameRange a b)
  from get_frame_range_result[OF assms, of a b] obtain fds s' where
    "get_frame_range_via (get_frame_data_first ext) s a b = Inr (fds, s')" "well_formed s'" "cache_ok ext s'"
    "same_data s s'" "current_filter s' = current_filter s" by blast
  thus ?thesis using GetFrameRange by simp
qed

lemma run_preserves:
  assumes ok: "ext_ok ext" and "well_formed s" and "cache_ok ext s"
  shows "\<exists>s'. run (get_frame_data_first ext) s cs = Inr s' \<and> well_formed s' \<and> cache_ok ext s' \<and> same_data s s'
           \<and> ((\<forall>c\<in>set cs. \<forall>name. c \<noteq> SetFilter name) \<longrightarrow> current_filter s' = current_filter s)"
  using assms(2,3)
proof (induction cs arbitrary: s)
  case Nil
  then show ?case by (simp add: same_data_refl)
next
  case (Cons c cs)
  from do_call_preserves[OF ok Cons.prems, of c] obtain s1 where
    c: "do_call (get_frame_data_first ext) s c = Inr s1" and s1: "well_formed s1" "cache_ok ext s1" "same_data s s1"
    and f1: "current_filter s1 = (case c of SetFilter name \<Rightarrow> name | _ \<Rightarrow> current_filter s)"
    by blast
  from Cons.IH[OF s1(1,2)] obtain s' where
    r: "run (get_frame_data_first ext) s1 cs = Inr s'" and s': "well_formed s'" "cache_ok ext s'" "same_data s1 s'"
    and f': "(\<forall>c\<in>set cs. \<forall>name. c \<noteq> SetFilter name) \<longrightarrow> current_filter s' = current_filter s1"
    by blast
  have "run (get_frame_data_first ext) s (c # cs) = Inr s'" using c r by simp
  moreover have "(\<forall>c\<in>set (c # cs). \<forall>name. c \<noteq> SetFilter name) \<longrightarrow>
                   current_filter s' = current_filter s"
    using f1 f' by (cases c) auto
  ultimately show ?case using s' same_data_trans[OF s1(3) s'(3)] by blast
qed

lemma run_append:
  "run (get_frame_data_first ext) s (xs @ ys) = (case run (get_frame_data_first ext) s xs of Inl e \<Rightarrow> Inl e | Inr s' \<Rightarrow> run (get_frame_data_first ext) s' ys)"
  by (induction xs arbitrary: s) (auto split: sum.splits)

subsection \<open>Facts about the example\<close>

lemma example_ext_ok: "ext_ok example_ext"
  by (simp add: ext_ok_def example_ext_def)

lemma example_rows: "rows example_baseq \<noteq> []"
  by (simp add: example_baseq_def)

lemma example_num_frames: "num_frames example_processor = 3"
  by (simp add: example_processor_def FrameProcessor_init_def example_baseq_def)

lemma example_good: "well_formed example_processor" "cache_ok ext example_processor"
  unfolding example_processor_def using init_good[OF example_rows] by blast+

lemma zip_components:
  "zip (map fst ps) (zip (map (\<lambda>p. fst (snd p)) ps) (map (\<lambda>p. snd (snd p)) ps)) = ps"
  by (induction ps) auto

subsection \<open>Filter names\<close>

text \<open>
  A name outside the known set is not rejected: it becomes the current filter.
\<close>

theorem unknown_filter_counterexample:
  "current_filter example_processor = ''None''
   \<and> current_filter (set_filter example_processor ''Median'') = ''Median''"
  by (simp add: example_processor_def FrameProcessor_init_def set_filter_def
        invalidate_cache_def)

text \<open>
  Claim C2, amended. \<open>set_filter\<close> accepts every name. A name outside \<^verbatim>\<open>'None'\<close>,
  \<^verbatim>\<open>'Butterworth'\<close>, \<^verbatim>\<open>'Savitzky-Golay'\<close> that differs from the current filter
  becomes the current filter and empties the dynamics cache, and the dynamics computed
  under it are the unfiltered ones, those computed under \<^verbatim>\<open>'None'\<close>.
\<close>

theorem unknown_filter_is_accepted:
  assumes "name \<notin> {''None'', ''Butterworth'', ''Savitzky-Golay''}"
    and "name \<noteq> current_filter s"
  shows "set_filter s name = s\<lparr>current_filter := name, dynamics_cache := Map.empty\<rparr>
       \<and> compute_dynamics ext (set_filter s name)
           = compute_dynamics ext (s\<lparr>current_filter := ''None''\<rparr>)"
proof -
  have sf: "set_filter s name = s\<lparr>current_filter := name, dynamics_cache := Map.empty\<rparr>"
    using assms(2) by (simp add: set_filter_def invalidate_cache_def)
  have fa: "filter_axis ext (s\<lparr>current_filter := name, dynamics_cache := Map.empty\<rparr>) fs col
            = Inr col" for fs col
    using assms(1) by (simp add: filter_axis_def)
  have "compute_dynamics ext (s\<lparr>current_filter := name, dynamics_cache := Map.empty\<rparr>)
        = compute_dynamics ext (s\<lparr>current_filter := ''None''\<rparr>)"
    using assms(1) by (simp add: compute_dynamics_def Let_def fa zip_components)
  thus ?thesis using sf by simp
qed

theorem unknown_filter_is_accepted_witness:
  "''Median'' \<notin> {''None'', ''Butterworth'', ''Savitzky-Golay''}
   \<and> ''Median'' \<noteq> current_filter example_processor
   \<and> current_filter (set_filter example_processor ''Median'') = ''Median''
   \<and> dynamics_cache (set_filter example_processor ''Median'') = Map.empty
   \<and> compute_dynamics example_ext (set_filter example_processor ''Median'')
       = compute_dynamics example_ext (example_processor\<lparr>current_filter := ''None''\<rparr>)"
proof -
  have h1: "''Median'' \<notin> {''None'', ''Butterworth'', ''Savitzky-Golay''}" by simp
  have h2: "''Median'' \<noteq> current_filter example_processor"
    by (simp add: example_processor_def FrameProcessor_init_def)
  note t = unknown_filter_is_accepted [OF h1 h2, of example_ext]
  from t have a: "current_filter (set_filter example_processor ''Median'') = ''Median''"
    and b: "dynamics_cache (set_filter example_processor ''Median'') = Map.empty"
    by simp_all
  from t a b h1 h2 show ?thesis by blast
qed

subsection \<open>Timeline length\<close>

text \<open>
  With a baseline store of three rows and two other stores of two rows, the timeline has
  three frames, not two.
\<close>

theorem timeline_length_counterexample:
  "num_frames example_processor = 3
   \<and> Min {length (rows example_baseq), length (rows example_short),
           length (rows example_short)} = 2"
  by (simp add: example_num_frames example_baseq_def example_short_def)

text \<open>
  Claim C3, amended. The timeline length is the row count of the baseline store alone:
  frame indices are clamped against it and the dynamics arrays have that length. A row
  index at or beyond the end of a store reads as the zero vector, which is what a shorter
  counterfactual or delta store contributes to the later frames.
\<close>

theorem timeline_length_is_baseline_rows:
  "num_frames (FrameProcessor_init (b, z, d)) = int (length (rows b))
   \<and> clamped (FrameProcessor_init (b, z, d)) i = max 0 (min i (int (length (rows b)) - 1))
   \<and> (ext_ok ext \<longrightarrow>
        (\<exists>dd. compute_dynamics ext (FrameProcessor_init (b, z, d)) = Inr dd
           \<and> length (force dd) = length (rows b) \<and> length (torque dd) = length (rows b)))
   \<and> (length (rows df) \<le> r \<longrightarrow> get_column_data df col r = np_zeros3)"
  by (simp add: FrameProcessor_init_def clamped_def compute_dynamics_def Let_def ext_ok_def
        get_column_data_def)

theorem timeline_length_is_baseline_rows_witness:
  "ext_ok example_ext \<and> length (rows example_short) \<le> 2
   \<and> num_frames example_processor = int (length (rows example_baseq))
   \<and> length (rows example_baseq) = 3
   \<and> clamped example_processor 7 = 2
   \<and> (\<exists>dd. compute_dynamics example_ext example_processor = Inr dd \<and> length (force dd) = 3)
   \<and> get_column_data example_short ''TotalHandForceGlobal'' 2 = np_zeros3"
proof -
  have h: "length (rows example_short) \<le> 2" by (simp add: example_short_def)
  have n: "length (rows example_baseq) = 3" by (simp add: example_baseq_def)
  from timeline_length_is_baseline_rows
         [of example_baseq example_short example_short 7 example_ext example_short 2
            "''TotalHandForceGlobal''"]
       example_ext_ok h n
  show ?thesis unfolding example_processor_def by auto
qed

lemma reachable_good:
  assumes "ext_ok ext" and "rows bq \<noteq> []"
    and "run (get_frame_data_first ext) (FrameProcessor_init (bq, zq, dq)) cs = Inr s"
  shows "well_formed s" and "cache_ok ext s" and "same_data (FrameProcessor_init (bq, zq, dq)) s"
  using run_preserves[OF assms(1) init_good(1)[OF assms(2)] init_good(2)[OF assms(2)],
      of zq dq cs] assms(3)
  by auto



lemma get_frame_data_fresh:
  assumes "ext_ok ext" and "well_formed s" and "cache_ok ext s"
  shows "map_sum id fst (get_frame_data_first ext s i) = fresh_frame ext s i"
  using get_frame_data_preserves[OF assms, of i] by force

subsection \<open>The class's binding of get_frame_data\<close>

lemma get_frame_data_raises: "get_frame_data s i = Inl AttributeError"
  by (simp add: get_frame_data_def)

text \<open>
  Claim C1, at a failing input. On the example processor, after \<open>set_filter\<close> with
  \<^verbatim>\<open>'Butterworth'\<close>, \<^verbatim>\<open>'None'\<close> and \<^verbatim>\<open>'Butterworth'\<close> again, the current filter
  is \<^verbatim>\<open>'Butterworth'\<close> and the dynamics cache is empty, as the claim says; but the
  request for frame 0 that follows raises AttributeError and returns no calculated force
  or torque.
\<close>

theorem get_frame_raises_after_filter_round_trip:
  "current_filter
     (set_filter (set_filter (set_filter example_processor ''Butterworth'') ''None'')
        ''Butterworth'') = ''Butterworth''
   \<and> dynamics_cache
       (set_filter (set_filter (set_filter example_processor ''Butterworth'') ''None'')
          ''Butterworth'') = Map.empty
   \<and> get_frame_data
       (set_filter (set_filter (set_filter example_processor ''Butterworth'') ''None'')
          ''Butterworth'') 0 = Inl AttributeError"
  by (simp add: get_frame_data_raises set_filter_def invalidate_cache_def
        example_processor_def FrameProcessor_init_def)

subsection \<open>Shaft length of a raw frame\<close>

lemma process_raw_frame_shaft:
  assumes "process_raw_frame s idx = Inr fd0"
  shows "shaft_length fd0
         = (if isfinite_all [butt fd0, clubhead fd0] then shaft_norm fd0 else Fin 1)"
  using assms
  by (auto simp: process_raw_frame_def Let_def FrameData_new_def post_init_def
        ensure_data_types_def calculate_shaft_properties_def shaft_norm_def
        split: if_splits)

lemma raw_fields_points:
  "shaft_length (raw_fields fd) = shaft_length fd" "butt (raw_fields fd) = butt fd"
  "clubhead (raw_fields fd) = clubhead fd" "shaft_norm (raw_fields fd) = shaft_norm fd"
  by (simp_all add: raw_fields_def shaft_norm_def)

text \<open>
  The frame built for index 1 of the example timeline has clubhead \<open>(inf, 0, 0)\<close> and
  butt 0: the distance between its points is \<open>inf\<close>, its shaft length is 1. The request
  for the frame itself raises AttributeError.
\<close>

theorem shaft_length_counterexample:
  "map_sum id shaft_length (process_raw_frame example_processor 1) = Inr (Fin 1)
   \<and> map_sum id shaft_norm (process_raw_frame example_processor 1) = Inr PInf
   \<and> get_frame_data example_processor 1 = Inl AttributeError"
  by (simp add: process_raw_frame_def Let_def FrameData_new_def post_init_def
        ensure_data_types_def calculate_shaft_properties_def shaft_norm_def
        example_processor_def FrameProcessor_init_def example_baseq_def example_row_def
        get_column_data_def isfinite_all_def np_sub_def get_frame_data_raises)

text \<open>
  Claim C6, amended. For every valid frame index, \<^verbatim>\<open>_process_raw_frame\<close> builds a
  frame, with that index, whose shaft length is the distance between its own clubhead and
  butt (in exact arithmetic) when all components of the two points are finite, and 1
  when either point has a non-finite component.
\<close>

theorem shaft_length_of_raw_frame:
  assumes "well_formed s" and "0 \<le> i" and "i < num_frames s"
  shows "\<exists>fd. process_raw_frame s (nat i) = Inr fd
            \<and> (isfinite_all [butt fd, clubhead fd] \<longrightarrow> shaft_length fd = shaft_norm fd)
            \<and> (\<not> isfinite_all [butt fd, clubhead fd] \<longrightarrow> shaft_length fd = Fin 1)"
proof -
  have "nat i < length (time_vector s)"
    using assms by (simp add: well_formed_def)
  from process_raw_frame_succeeds[OF this] obtain fd where
    p: "process_raw_frame s (nat i) = Inr fd" by blast
  from process_raw_frame_shaft[OF p] p show ?thesis by auto
qed

theorem shaft_length_of_raw_frame_witness:
  "well_formed example_processor \<and> (0::int) \<le> 0 \<and> 0 < num_frames example_processor
   \<and> (\<exists>fd. process_raw_frame example_processor (nat 0) = Inr fd
         \<and> butt fd = (Fin 0, Fin 0, Fin 0) \<and> clubhead fd = (Fin 1, Fin 2, Fin 2)
         \<and> isfinite_all [butt fd, clubhead fd]
         \<and> shaft_length fd = shaft_norm fd)"
proof -
  have n: "0 < num_frames example_processor" by (simp add: example_num_frames)
  from shaft_length_of_raw_frame [OF example_good(1) order_refl n]
  obtain fd where p: "process_raw_frame example_processor (nat 0) = Inr fd"
    and a: "isfinite_all [butt fd, clubhead fd] \<longrightarrow> shaft_length fd = shaft_norm fd"
    by blast
  have e: "map_sum id butt (process_raw_frame example_processor 0) = Inr (Fin 0, Fin 0, Fin 0)"
    "map_sum id clubhead (process_raw_frame example_processor 0) = Inr (Fin 1, Fin 2, Fin 2)"
    by (simp_all add: process_raw_frame_def Let_def FrameData_new_def post_init_def
        ensure_data_types_def calculate_shaft_properties_def
        example_processor_def FrameProcessor_init_def example_baseq_def example_row_def
        get_column_data_def isfinite_all_def)
  have pts: "butt fd = (Fin 0, Fin 0, Fin 0)" "clubhead fd = (Fin 1, Fin 2, Fin 2)"
    using e p by simp_all
  hence "isfinite_all [butt fd, clubhead fd]" by (simp add: isfinite_all_def)
  with a p pts n example_good(1) show ?thesis by auto
qed

subsection \<open>Filter switches and the dynamics cache\<close>

lemma upt_three: "[0..<(3::nat)] = [0, 1, 2]"
  by code_simp

lemma example_dynamics:
  "map_sum id force (compute_dynamics example_ext example_processor)
     = Inr [(Fin 1, Fin 2, Fin 2), (PInf, Fin 0, Fin 0), (Fin 3, Fin 4, Fin 0)]"
  "map_sum id force
     (compute_dynamics example_ext (set_filter example_processor ''Butterworth''))
     = Inr [(Fin 0, Fin 0, Fin 0), (Fin 0, Fin 0, Fin 0), (Fin 0, Fin 0, Fin 0)]"
  by (simp_all add: compute_dynamics_def Let_def filter_axis_def assign_column_def
        example_ext_def example_processor_def FrameProcessor_init_def example_baseq_def
        example_row_def get_column_data_def set_filter_def invalidate_cache_def
        upt_three)


lemma run_get_frames:
  assumes "ext_ok ext" and "well_formed s" and "cache_ok ext s"
  shows "\<exists>s'. run (get_frame_data_first ext) s (map GetFrame js) = Inr s' \<and> well_formed s' \<and> cache_ok ext s'
            \<and> same_data s s' \<and> current_filter s' = current_filter s"
  using run_preserves[OF assms, of "map GetFrame js"] by auto

lemma cache_ok_dom:
  assumes "cache_ok ext s"
  shows "dom (dynamics_cache s) \<subseteq> {current_filter s}"
  using assms by (auto simp: cache_ok_def)

lemma run_Cons: "run (get_frame_data_first ext) s (c # cs) = (case do_call (get_frame_data_first ext) s c of Inl e \<Rightarrow> Inl e | Inr s' \<Rightarrow> run (get_frame_data_first ext) s' cs)"
  by simp

lemma filter_round_trip:
  fixes zq dq :: DataFrame
  assumes ok: "ext_ok ext" and ne: "rows bq \<noteq> []"
  defines "init \<equiv> FrameProcessor_init (bq, zq, dq)"
  shows "\<exists>s. run (get_frame_data_first ext) init (cs @ SetFilter A # map GetFrame is1 @ SetFilter B # map GetFrame is2
                       @ [SetFilter A]) = Inr s
           \<and> well_formed s \<and> cache_ok ext s \<and> same_data init s
           \<and> current_filter s = A \<and> (A \<noteq> B \<longrightarrow> dynamics_cache s = Map.empty)"
proof -
  have g0: "well_formed init" "cache_ok ext init"
    unfolding init_def using init_good[OF ne] by blast+
  from run_preserves[OF ok g0, of cs] obtain t0 where
    t0: "run (get_frame_data_first ext) init cs = Inr t0" "well_formed t0" "cache_ok ext t0" "same_data init t0"
    by blast
  define t1 where "t1 = set_filter t0 A"
  note p1 = set_filter_preserves[OF t0(2,3), of A, folded t1_def]
  from run_get_frames[OF ok p1(1,2), of is1] obtain t2 where
    t2: "run (get_frame_data_first ext) t1 (map GetFrame is1) = Inr t2" "well_formed t2" "cache_ok ext t2"
      "same_data t1 t2" "current_filter t2 = current_filter t1"
    by blast
  define t3 where "t3 = set_filter t2 B"
  note p3 = set_filter_preserves[OF t2(2,3), of B, folded t3_def]
  from run_get_frames[OF ok p3(1,2), of is2] obtain t4 where
    t4: "run (get_frame_data_first ext) t3 (map GetFrame is2) = Inr t4" "well_formed t4" "cache_ok ext t4"
      "same_data t3 t4" "current_filter t4 = current_filter t3"
    by blast
  define s where "s = set_filter t4 A"
  note p5 = set_filter_preserves[OF t4(2,3), of A, folded s_def]
  have r: "run (get_frame_data_first ext) init (cs @ SetFilter A # map GetFrame is1 @ SetFilter B # map GetFrame is2
                       @ [SetFilter A]) = Inr s"
    by (simp add: run_append t0(1) t1_def [symmetric] t2(1) t3_def [symmetric] t4(1)
          s_def [symmetric] del: run.simps(2) add: run_Cons)
  have sd: "same_data init s"
    using t0(4) p1(3) t2(4) p3(3) t4(4) p5(3) by (simp add: same_data_def)
  have "dynamics_cache s = Map.empty" if "A \<noteq> B"
    using that t4(5) p3(4) by (simp add: s_def set_filter_def invalidate_cache_def)
  thus ?thesis using r p5 sd by blast
qed

lemma first_definition_round_trip:
  assumes "ext_ok ext" and "rows bq \<noteq> []"
  shows "set_filter s0 (current_filter s0) = s0
       \<and> (name \<noteq> current_filter s0 \<longrightarrow>
            set_filter s0 name = s0\<lparr>current_filter := name, dynamics_cache := Map.empty\<rparr>)
       \<and> (\<exists>t. run (get_frame_data_first ext) (FrameProcessor_init (bq, zq, dq)) cs = Inr t
              \<and> dom (dynamics_cache t) \<subseteq> {current_filter t})
       \<and> (\<exists>s. run (get_frame_data_first ext) (FrameProcessor_init (bq, zq, dq))
                 (cs @ SetFilter A # map GetFrame is1 @ SetFilter B # map GetFrame is2
                    @ [SetFilter A]) = Inr s
              \<and> current_filter s = A
              \<and> (A \<noteq> B \<longrightarrow> dynamics_cache s = Map.empty)
              \<and> (\<exists>fd s' dA. get_frame_data_first ext s i = Inr (fd, s')
                    \<and> compute_dynamics ext (set_filter (FrameProcessor_init (bq, zq, dq)) A)
                        = Inr dA
                    \<and> forces fd ''calculated'' = Some (force dA ! nat (clamped s i))
                    \<and> torques fd ''calculated'' = Some (torque dA ! nat (clamped s i))
                    \<and> Inr fd = fresh_frame ext (set_filter (FrameProcessor_init (bq, zq, dq)) A) i
                    \<and> dom (dynamics_cache s') = {A}))"
proof -
  let ?init = "FrameProcessor_init (bq, zq, dq)"
  have 1: "set_filter s0 (current_filter s0) = s0" by (simp add: set_filter_def)
  have 2: "name \<noteq> current_filter s0 \<longrightarrow>
            set_filter s0 name = s0\<lparr>current_filter := name, dynamics_cache := Map.empty\<rparr>"
    by (simp add: set_filter_def invalidate_cache_def)
  have g0: "well_formed ?init" "cache_ok ext ?init"
    using init_good[OF assms(2)] by blast+
  have 3: "\<exists>t. run (get_frame_data_first ext) ?init cs = Inr t \<and> dom (dynamics_cache t) \<subseteq> {current_filter t}"
    using run_preserves[OF assms(1) g0, of cs] cache_ok_dom by blast
  from filter_round_trip[OF assms, of zq dq cs A is1 B is2] obtain s where
    r: "run (get_frame_data_first ext) ?init (cs @ SetFilter A # map GetFrame is1 @ SetFilter B # map GetFrame is2
                       @ [SetFilter A]) = Inr s"
    and s: "well_formed s" "cache_ok ext s" "same_data ?init s" "current_filter s = A"
      "A \<noteq> B \<longrightarrow> dynamics_cache s = Map.empty"
    by blast
  from get_frame_data_preserves[OF assms(1) s(1,2), of i] obtain fd s' d where
    g: "get_frame_data_first ext s i = Inr (fd, s')"
    and dc: "dynamics_cache s' = (dynamics_cache s)(current_filter s \<mapsto> d)"
    and d: "compute_dynamics ext s = Inr d"
    and f: "forces fd ''calculated'' = Some (force d ! nat (clamped s i))"
      "torques fd ''calculated'' = Some (torque d ! nat (clamped s i))"
    and fr: "Inr fd = fresh_frame ext s i"
    by blast
  let ?f = "set_filter ?init A"
  have fA: "same_data s ?f" "current_filter s = current_filter ?f"
    using s(3,4) by (simp_all add: same_data_def set_filter_def invalidate_cache_def)
  have dA: "compute_dynamics ext ?f = Inr d"
    using compute_dynamics_same_data[OF fA, of ext] d by simp
  have frA: "Inr fd = fresh_frame ext ?f i"
    using fresh_frame_same_data[OF fA, of ext i] fr by simp
  have "dom (dynamics_cache s') = {A}"
    using cache_ok_dom[OF s(2)] s(4) by (auto simp: dc)
  with g dA f frA have inner:
    "\<exists>fd s' dA. get_frame_data_first ext s i = Inr (fd, s')
        \<and> compute_dynamics ext ?f = Inr dA
        \<and> forces fd ''calculated'' = Some (force dA ! nat (clamped s i))
        \<and> torques fd ''calculated'' = Some (torque dA ! nat (clamped s i))
        \<and> Inr fd = fresh_frame ext ?f i
        \<and> dom (dynamics_cache s') = {A}"
    by blast
  have 4: "\<exists>s. run (get_frame_data_first ext) ?init
                 (cs @ SetFilter A # map GetFrame is1 @ SetFilter B # map GetFrame is2
                    @ [SetFilter A]) = Inr s
              \<and> current_filter s = A
              \<and> (A \<noteq> B \<longrightarrow> dynamics_cache s = Map.empty)
              \<and> (\<exists>fd s' dA. get_frame_data_first ext s i = Inr (fd, s')
                    \<and> compute_dynamics ext ?f = Inr dA
                    \<and> forces fd ''calculated'' = Some (force dA ! nat (clamped s i))
                    \<and> torques fd ''calculated'' = Some (torque dA ! nat (clamped s i))
                    \<and> Inr fd = fresh_frame ext ?f i
                    \<and> dom (dynamics_cache s') = {A})"
    by (intro exI[of _ s] conjI r s(4) s(5) inner)
  show ?thesis by (intro conjI 1 2 3 4)
qed

subsection \<open>The divisions of the rotation routine\<close>

text \<open>
  For non-zero arguments every division in \<open>rotation_matrix_body\<close> is by a
  non-zero number: the axis of the half turn is not the zero vector, and the Rodrigues
  branch is only reached with a non-zero sine.
\<close>

lemma half_turn_axis_nonzero:
  assumes "dot u u = 1"
  shows "norm3 (cross u (if \<bar>fst u\<bar> < 9 / 10 then (1, 0, 0) else (0, 1, 0))) \<noteq> 0"
proof (cases u)
  case (fields a b c)
  have unit: "a * a + b * b + c * c = 1" using assms fields by simp
  show ?thesis
  proof (cases "\<bar>a\<bar> < 9 / 10")
    case True
    have "\<bar>a\<bar> * \<bar>a\<bar> \<le> (9 / 10) * (9 / 10)"
      using True by (intro mult_mono) simp_all
    hence "a * a < 1" by simp
    hence "\<not> (b = 0 \<and> c = 0)" using unit by auto
    thus ?thesis using True fields by (auto simp: norm3_zero_iff)
  next
    case False
    hence "a \<noteq> 0" by auto
    thus ?thesis using False fields by (auto simp: norm3_zero_iff)
  qed
qed

lemma lagrange_identity:
  "dot (cross u w) (cross u w) = dot u u * dot w w - dot u w * dot u w"
proof (cases u; cases w)
  fix a b c d e f :: real
  assume uw: "u = (a, b, c)" "w = (d, e, f)"
  have "(b * f - c * e) * (b * f - c * e) + (c * d - a * f) * (c * d - a * f)
        + (a * e - b * d) * (a * e - b * d)
        = (a * a + b * b + c * c) * (d * d + e * e + f * f)
          - (a * d + b * e + c * f) * (a * d + b * e + c * f)"
    by algebra
  thus ?thesis using uw by simp
qed

lemma sum_squares_zero:
  fixes x y z :: real
  assumes "x * x + y * y + z * z = 0"
  shows "x = 0 \<and> y = 0 \<and> z = 0"
proof -
  have "0 \<le> x * x" "0 \<le> y * y" "0 \<le> z * z" by simp_all
  with assms have "x * x = 0" "y * y = 0" "z * z = 0" by linarith+
  thus ?thesis by simp
qed

lemma rodrigues_sine_nonzero:
  assumes "dot u u = 1" and "dot w w = 1"
    and "\<not> allclose u w" and "\<not> allclose u (vneg w)"
  shows "norm3 (cross u w) \<noteq> 0"
proof
  assume "norm3 (cross u w) = 0"
  hence "dot (cross u w) (cross u w) = 0" by (simp add: norm3_sq [symmetric])
  hence k: "dot u w * dot u w = 1" using lagrange_identity[of u w] assms(1,2) by simp
  hence "dot u w = 1 \<or> dot u w = - 1" using square_eq_1_iff by blast
  moreover obtain a b c d e f where uw: "u = (a, b, c)" "w = (d, e, f)"
    by (cases u; cases w) auto
  ultimately consider (pos) "a * d + b * e + c * f = 1" | (neg) "a * d + b * e + c * f = - 1"
    by auto
  then show False
  proof cases
    case pos
    have "(a - d) * (a - d) + (b - e) * (b - e) + (c - f) * (c - f)
          = (a * a + b * b + c * c) + (d * d + e * e + f * f) - 2 * (a * d + b * e + c * f)"
      by (simp add: algebra_simps)
    also have "\<dots> = 0" using assms(1,2) uw pos by simp
    finally have "a - d = 0 \<and> b - e = 0 \<and> c - f = 0" by (rule sum_squares_zero)
    hence "u = w" using uw by simp
    thus False using assms(3) allclose_refl by simp
  next
    case neg
    have "(a + d) * (a + d) + (b + e) * (b + e) + (c + f) * (c + f)
          = (a * a + b * b + c * c) + (d * d + e * e + f * f) + 2 * (a * d + b * e + c * f)"
      by (simp add: algebra_simps)
    also have "\<dots> = 0" using assms(1,2) uw neg by simp
    finally have "a + d = 0 \<and> b + e = 0 \<and> c + f = 0" by (rule sum_squares_zero)
    hence "u = vneg w" using uw by auto
    thus False using assms(4) allclose_refl by simp
  qed
qed

subsection \<open>Clamping of frame requests\<close>







subsection \<open>The alignment rotation under the compiler\<close>

text \<open>
  Claim C8, at a failing input. The return statements of
  \<^verbatim>\<open>rotation_matrix_from_vectors\<close> have the element types float32, float64 and
  float64, so every call raises TypingError and returns no matrix: for the arguments
  \<open>(1, 0, 0)\<close> and \<open>(0, 1, 0)\<close> as for any others.
\<close>

theorem alignment_rotation_raises:
  "return_dtypes = [Float32, Float64, Float64]
   \<and> rotation_matrix_from_vectors (1, 0, 0) (0, 1, 0) = Inl TypingError
   \<and> rotation_matrix_from_vectors vec1 vec2 = Inl TypingError"
  by (simp add: rotation_matrix_from_vectors_def return_dtypes_def)

end
